theory Spec2Isabelle
  imports Complex_Main
begin

section \<open>Python and pandas values\<close>

text \<open>
  The development embeds \<^verbatim>\<open>src/twse_openapi.py\<close>: the class \<^verbatim>\<open>TwseOpenApi\<close> with its methods
  \<^verbatim>\<open>parse_taiwanese_date\<close>, \<^verbatim>\<open>infer_column_type\<close>, \<^verbatim>\<open>parse_data\<close> and
  \<^verbatim>\<open>get_industry_eps_stat_info\<close>.  The methods are thin layers over pandas (2.x) and the
  Python built-ins; the part of those libraries that the methods call is written out first,
  each function next to the call it stands for.

  Text is a \<^typ>\<open>string\<close> whose characters are read as code points below 256.  In that range
  the regular expression class \<^verbatim>\<open>\d\<close> and Python's \<^verbatim>\<open>int\<close> know exactly the ASCII digits.
  Column names are only ever compared for equality.
\<close>

datatype py_error = ValueError | AttributeError | TypeError | ConnectionError

datatype errors_mode = Raise | Coerce

text \<open>A calendar day at midnight, which is all that the format \<^verbatim>\<open>%Y%m%d\<close> can produce.\<close>

datatype timestamp = Timestamp (year: int) (month: int) (day: int)

text \<open>
  A cell of a column.  \<open>Null\<close> stands for every missing value of pandas (\<^verbatim>\<open>None\<close>,
  \<^verbatim>\<open>NaN\<close>, \<^verbatim>\<open>pd.NA\<close>, \<^verbatim>\<open>NaT\<close>).  A number is kept as the rational that its decimal
  numeral denotes; the rounding of float64 is not part of the model.
\<close>

datatype cell = Null | Text string | Number rat | Day timestamp

text \<open>What \<^verbatim>\<open>parse_taiwanese_date\<close> can return: \<^verbatim>\<open>None\<close>, \<^verbatim>\<open>NaT\<close> or a \<^verbatim>\<open>Timestamp\<close>.\<close>

datatype parsed = NoneV | NaT | TS timestamp

subsection \<open>Digits, \<^verbatim>\<open>int(...)\<close> and the formatting of an integer\<close>

definition is_digit :: "char \<Rightarrow> bool" where
  "is_digit c = (c \<in> set ''0123456789'')"

definition digit_val :: "char \<Rightarrow> int" where
  "digit_val c = of_char c - 48"

definition digits_val :: "string \<Rightarrow> int" where
  "digits_val ds = foldl (\<lambda>a c. 10 * a + digit_val c) 0 ds"

text \<open>The characters below 256 that \<^verbatim>\<open>str.strip\<close> and \<^verbatim>\<open>int\<close> treat as white space.\<close>

definition is_py_space :: "char \<Rightarrow> bool" where
  "is_py_space c = ((of_char c :: nat) \<in> {9, 10, 11, 12, 13, 28, 29, 30, 31, 32, 133, 160})"

definition py_strip :: "string \<Rightarrow> string" where
  "py_strip s = rev (dropWhile is_py_space (rev (dropWhile is_py_space s)))"

text \<open>Digits, with single underscores allowed between two digits.\<close>

fun int_literal :: "string \<Rightarrow> bool" where
  "int_literal [] = False"
| "int_literal [c] = is_digit c"
| "int_literal (c # d # cs) =
     (is_digit c \<and> (if d = CHR ''_'' then int_literal cs else int_literal (d # cs)))"

text \<open>\<^verbatim>\<open>int(s)\<close> for a text \<open>s\<close>: white space stripped, an optional sign, a literal.\<close>

definition py_int :: "string \<Rightarrow> py_error + int" where
  "py_int s =
     (let t = py_strip s;
          neg = (t \<noteq> [] \<and> hd t = CHR ''-'');
          u = (if t \<noteq> [] \<and> (hd t = CHR ''-'' \<or> hd t = CHR ''+'') then tl t else t)
      in if int_literal u
         then Inr ((if neg then - 1 else 1) * digits_val (filter (\<lambda>c. c \<noteq> CHR ''_'') u))
         else Inl ValueError)"

definition digit_char :: "nat \<Rightarrow> char" where
  "digit_char n = ''0123456789'' ! n"

function str_of_nat :: "nat \<Rightarrow> string" where
  "str_of_nat n = (if n < 10 then [digit_char n] else str_of_nat (n div 10) @ [digit_char (n mod 10)])"
  by pat_completeness auto
termination
  by (relation "measure id") auto

declare str_of_nat.simps [simp del]

text \<open>The text that an f-string puts for an integer.\<close>

definition str_of_int :: "int \<Rightarrow> string" where
  "str_of_int i = (if i < 0 then CHR ''-'' # str_of_nat (nat (- i)) else str_of_nat (nat i))"

subsection \<open>\<^verbatim>\<open>pd.to_datetime(..., format="%Y%m%d")\<close>\<close>

definition is_leap :: "int \<Rightarrow> bool" where
  "is_leap y = (y mod 4 = 0 \<and> (y mod 100 \<noteq> 0 \<or> y mod 400 = 0))"

definition days_in_month :: "int \<Rightarrow> int \<Rightarrow> int" where
  "days_in_month y m =
     (if m = 2 then (if is_leap y then 29 else 28)
      else if m = 4 \<or> m = 6 \<or> m = 9 \<or> m = 11 then 30 else 31)"

definition valid_date :: "int \<Rightarrow> int \<Rightarrow> int \<Rightarrow> bool" where
  "valid_date y m d = (1 \<le> m \<and> m \<le> 12 \<and> 1 \<le> d \<and> d \<le> days_in_month y m)"

text \<open>
  A nanosecond \<^verbatim>\<open>Timestamp\<close> holds the instants from 1677-09-21 00:12:43 to
  2262-04-11 23:47:16; the midnights among them are those of 1677-09-22 to 2262-04-11.
\<close>

definition date_le :: "int \<times> int \<times> int \<Rightarrow> int \<times> int \<times> int \<Rightarrow> bool" where
  "date_le a b =
     (case (a, b) of ((y1, m1, d1), (y2, m2, d2)) \<Rightarrow>
        y1 < y2 \<or> (y1 = y2 \<and> (m1 < m2 \<or> (m1 = m2 \<and> d1 \<le> d2))))"

definition in_timestamp_range :: "int \<Rightarrow> int \<Rightarrow> int \<Rightarrow> bool" where
  "in_timestamp_range y m d = (date_le (1677, 9, 22) (y, m, d) \<and> date_le (y, m, d) (2262, 4, 11))"

text \<open>Texts that the parser takes for a missing value without looking at the format.\<close>

definition is_nat_string :: "string \<Rightarrow> bool" where
  "is_nat_string s = (s \<in> set ['''', ''NaT'', ''nat'', ''NAT'', ''nan'', ''NaN'', ''NAN''])"

text \<open>
  One text against the format \<^verbatim>\<open>%Y%m%d\<close>: eight digits, a month and a day of the calendar,
  inside the range of a \<^verbatim>\<open>Timestamp\<close>.  \<open>Inr None\<close> is \<^verbatim>\<open>NaT\<close>; \<open>Inl ValueError\<close> is the
  parse error (or \<^verbatim>\<open>OutOfBoundsDatetime\<close>, a subclass of \<^verbatim>\<open>ValueError\<close>).
\<close>

definition strptime_Ymd :: "string \<Rightarrow> py_error + timestamp option" where
  "strptime_Ymd s =
     (if is_nat_string s then Inr None
      else if length s = 8 \<and> list_all is_digit s then
        (let y = digits_val (take 4 s);
             m = digits_val (take 2 (drop 4 s));
             d = digits_val (drop 6 s)
         in if valid_date y m d \<and> in_timestamp_range y m d
            then Inr (Some (Timestamp y m d)) else Inl ValueError)
      else Inl ValueError)"

text \<open>\<^verbatim>\<open>pd.to_datetime(text, format="%Y%m%d", errors=mode)\<close> on one text.\<close>

definition to_datetime_scalar :: "errors_mode \<Rightarrow> string \<Rightarrow> py_error + parsed" where
  "to_datetime_scalar mode s =
     (case strptime_Ymd s of
        Inl e \<Rightarrow> (case mode of Raise \<Rightarrow> Inl e | Coerce \<Rightarrow> Inr NaT)
      | Inr None \<Rightarrow> Inr NaT
      | Inr (Some t) \<Rightarrow> Inr (TS t))"

section \<open>\<^verbatim>\<open>TwseOpenApi.parse_taiwanese_date\<close>\<close>

text \<open>The body of the \<^verbatim>\<open>try\<close> block (lines 41 to 46).\<close>

definition parse_try_body :: "string \<Rightarrow> py_error + parsed" where
  "parse_try_body taiwan_date =
     (case py_int (take 3 taiwan_date) of
        Inl e \<Rightarrow> Inl e
      | Inr n \<Rightarrow>
          (let taiwan_year = n + 1911;
               month_day = drop 3 taiwan_date;
               gregorian_date = str_of_int taiwan_year @ month_day
           in to_datetime_scalar Coerce gregorian_date))"

text \<open>
  The method itself: the guard of line 38, then the \<^verbatim>\<open>try\<close> block whose
  \<^verbatim>\<open>except Exception\<close> turns every error into \<^verbatim>\<open>None\<close>.  The result is a sum so that
  an error that left the method would show as \<open>Inl\<close>.
\<close>

definition parse_taiwanese_date :: "cell \<Rightarrow> py_error + parsed" where
  "parse_taiwanese_date taiwan_date =
     (case taiwan_date of
        Text s \<Rightarrow>
          (if length s \<noteq> 7 then Inr NoneV
           else (case parse_try_body s of Inl e \<Rightarrow> Inr NoneV | Inr r \<Rightarrow> Inr r))
      | _ \<Rightarrow> Inr NoneV)"


section \<open>Series and frames\<close>

text \<open>
  The dtypes that occur: \<^verbatim>\<open>object\<close> (a column as built from the records),
  \<^verbatim>\<open>datetime64[ns]\<close>, the numeric dtypes (\<^verbatim>\<open>float64\<close> or \<^verbatim>\<open>int64\<close>, not told apart),
  \<^verbatim>\<open>category\<close> and \<^verbatim>\<open>string\<close>.
\<close>

datatype dtype = ObjectD | Datetime64 | Float64 | CategoryD | StringD

record series =
  dtype :: dtype
  cells :: "cell list"

type_synonym frame = "(string \<times> series) list"

text \<open>
  A record of the input is a Python \<^verbatim>\<open>dict\<close> from column names to texts or \<^verbatim>\<open>None\<close>, kept
  as an association list because the order of the keys decides the order of the columns.
\<close>

type_synonym raw_record = "(string \<times> string option) list"

fun traverse :: "('a \<Rightarrow> py_error + 'b) \<Rightarrow> 'a list \<Rightarrow> py_error + 'b list" where
  "traverse f [] = Inr []"
| "traverse f (x # xs) =
     (case f x of
        Inl e \<Rightarrow> Inl e
      | Inr y \<Rightarrow> (case traverse f xs of Inl e \<Rightarrow> Inl e | Inr ys \<Rightarrow> Inr (y # ys)))"

subsection \<open>\<^verbatim>\<open>pd.DataFrame(data)\<close>\<close>

definition add_key :: "string list \<Rightarrow> string \<Rightarrow> string list" where
  "add_key ks k = (if k \<in> set ks then ks else ks @ [k])"

text \<open>The columns are the keys of the records in the order of their first appearance.\<close>

definition column_names :: "raw_record list \<Rightarrow> string list" where
  "column_names data = foldl add_key [] (concat (map (map fst) data))"

text \<open>A key that a record lacks gives a missing value, as \<^verbatim>\<open>None\<close> does.\<close>

definition raw_cell :: "raw_record \<Rightarrow> string \<Rightarrow> cell" where
  "raw_cell r c = (case map_of r c of Some (Some s) \<Rightarrow> Text s | _ \<Rightarrow> Null)"

definition raw_column :: "raw_record list \<Rightarrow> string \<Rightarrow> series" where
  "raw_column data c = \<lparr>dtype = ObjectD, cells = map (\<lambda>r. raw_cell r c) data\<rparr>"

definition DataFrame :: "raw_record list \<Rightarrow> frame" where
  "DataFrame data = map (\<lambda>c. (c, raw_column data c)) (column_names data)"

subsection \<open>\<^verbatim>\<open>replace\<close>, the \<^verbatim>\<open>.str\<close> accessor, \<^verbatim>\<open>all\<close>, \<^verbatim>\<open>apply\<close>, \<^verbatim>\<open>astype\<close>\<close>

text \<open>\<^verbatim>\<open>series.replace("--", None)\<close> and, column by column, \<^verbatim>\<open>df.replace("--", pd.NA)\<close>.\<close>

definition replace_sentinel :: "series \<Rightarrow> series" where
  "replace_sentinel s = s\<lparr>cells := map (\<lambda>c. if c = Text ''--'' then Null else c) (cells s)\<rparr>"

text \<open>
  \<^verbatim>\<open>series.str\<close> raises \<^verbatim>\<open>AttributeError\<close> ("Can only use .str accessor with string values")
  on a numeric or datetime column.
\<close>

definition str_accessor :: "series \<Rightarrow> py_error + cell list" where
  "str_accessor s =
     (if dtype s = Float64 \<or> dtype s = Datetime64 then Inl AttributeError else Inr (cells s))"

text \<open>
  \<^verbatim>\<open>re.match(r"^\d{7}$", s)\<close>: seven digits, and \<^verbatim>\<open>$\<close> also matches before one final
  newline.
\<close>

definition re_match_7digits :: "string \<Rightarrow> bool" where
  "re_match_7digits s =
     (list_all is_digit (take 7 s) \<and> (length s = 7 \<or> (length s = 8 \<and> drop 7 s = [CHR 0x0A])))"

text \<open>One element of \<^verbatim>\<open>.str.match(...)\<close>; a missing value stays missing.\<close>

definition str_match :: "cell \<Rightarrow> bool option" where
  "str_match c = (case c of Text s \<Rightarrow> Some (re_match_7digits s) | _ \<Rightarrow> None)"

text \<open>\<^verbatim>\<open>.all()\<close> skips the missing values.\<close>

definition series_all :: "bool option list \<Rightarrow> bool" where
  "series_all bs = list_all (\<lambda>b. b \<noteq> Some False) bs"

text \<open>One element of \<^verbatim>\<open>.str.replace(",", "")\<close>.\<close>

definition str_replace_comma :: "cell \<Rightarrow> string option" where
  "str_replace_comma c = (case c of Text s \<Rightarrow> Some (filter (\<lambda>x. x \<noteq> CHR '','') s) | _ \<Rightarrow> None)"

definition cell_of_parsed :: "parsed \<Rightarrow> cell" where
  "cell_of_parsed r = (case r of TS t \<Rightarrow> Day t | _ \<Rightarrow> Null)"

text \<open>
  \<^verbatim>\<open>series.apply(self.parse_taiwanese_date)\<close>.  The new column is \<^verbatim>\<open>datetime64[ns]\<close> as soon
  as one result is a \<^verbatim>\<open>Timestamp\<close> or \<^verbatim>\<open>NaT\<close>; results that are all \<^verbatim>\<open>None\<close> stay an
  \<^verbatim>\<open>object\<close> column, and an empty column keeps its dtype.
\<close>

definition apply_parse_taiwanese_date :: "series \<Rightarrow> py_error + series" where
  "apply_parse_taiwanese_date s =
     (case traverse parse_taiwanese_date (cells s) of
        Inl e \<Rightarrow> Inl e
      | Inr rs \<Rightarrow>
          Inr \<lparr>dtype = (if rs = [] then dtype s
                         else if list_all (\<lambda>r. r = NoneV) rs then ObjectD else Datetime64),
               cells = map cell_of_parsed rs\<rparr>)"

text \<open>
  \<^verbatim>\<open>pd.to_datetime(series, format="%Y%m%d", errors=mode)\<close>, element by element.  The result
  is always \<^verbatim>\<open>datetime64[ns]\<close>.  A number is handed to the parser as its text (such as
  \<^verbatim>\<open>100.0\<close>), which the format does not match.
\<close>

definition to_datetime_cell :: "errors_mode \<Rightarrow> cell \<Rightarrow> py_error + cell" where
  "to_datetime_cell mode c =
     (case c of
        Null \<Rightarrow> Inr Null
      | Day t \<Rightarrow> Inr (Day t)
      | Number x \<Rightarrow> (case mode of Raise \<Rightarrow> Inl ValueError | Coerce \<Rightarrow> Inr Null)
      | Text s \<Rightarrow>
          (case to_datetime_scalar mode s of
             Inl e \<Rightarrow> Inl e
           | Inr r \<Rightarrow> Inr (cell_of_parsed r)))"

definition to_datetime_series :: "errors_mode \<Rightarrow> series \<Rightarrow> py_error + series" where
  "to_datetime_series mode s =
     (case traverse (to_datetime_cell mode) (cells s) of
        Inl e \<Rightarrow> Inl e
      | Inr cs \<Rightarrow> Inr \<lparr>dtype = Datetime64, cells = cs\<rparr>)"

text \<open>
  \<^verbatim>\<open>astype("category")\<close> and \<^verbatim>\<open>astype("string")\<close> keep the texts and the missing values of
  a column of texts.  (A numeric or datetime column never gets as far as these calls:
  \<^verbatim>\<open>infer_column_type\<close> has raised on it before.)
\<close>

definition astype :: "dtype \<Rightarrow> series \<Rightarrow> series" where
  "astype d s = s\<lparr>dtype := d\<rparr>"

subsection \<open>\<^verbatim>\<open>pd.to_numeric\<close>\<close>

definition is_c_space :: "char \<Rightarrow> bool" where
  "is_c_space c = ((of_char c :: nat) \<in> {9, 10, 11, 12, 13, 32})"

text \<open>
  The numerals read: white space, an optional sign, digits with an optional fraction, white
  space.  The result is the value and whether the numeral looked like an integer (no point).
  Exponents and the words for infinity and not-a-number, which the library also reads, are
  left out of the model.
\<close>

definition read_numeral :: "string \<Rightarrow> (rat \<times> bool) option" where
  "read_numeral s =
     (let t = dropWhile is_c_space s;
          neg = (t \<noteq> [] \<and> hd t = CHR ''-'');
          u = (if t \<noteq> [] \<and> (hd t = CHR ''-'' \<or> hd t = CHR ''+'') then tl t else t);
          ip = takeWhile is_digit u;
          r1 = dropWhile is_digit u;
          has_dot = (r1 \<noteq> [] \<and> hd r1 = CHR ''.'');
          fp = (if has_dot then takeWhile is_digit (tl r1) else []);
          r2 = (if has_dot then dropWhile is_digit (tl r1) else r1);
          r3 = dropWhile is_c_space r2
      in if ip @ fp = [] \<or> r3 \<noteq> [] then None
         else Some ((if neg then - 1 else 1) * (of_int (digits_val (ip @ fp)) / 10 ^ length fp),
                    \<not> has_dot))"

text \<open>
  One element of \<^verbatim>\<open>pd.to_numeric(..., errors=mode)\<close>.  The empty text is a missing value.
  With \<^verbatim>\<open>errors="raise"\<close> an integer outside the 64-bit range is an error
  ("Integer out of range"); with \<^verbatim>\<open>errors="coerce"\<close> it is kept as a float.
\<close>

definition to_numeric_value :: "errors_mode \<Rightarrow> string option \<Rightarrow> py_error + cell" where
  "to_numeric_value mode v =
     (case v of
        None \<Rightarrow> Inr Null
      | Some s \<Rightarrow>
          (if s = [] then Inr Null
           else (case read_numeral s of
                   None \<Rightarrow> (case mode of Raise \<Rightarrow> Inl ValueError | Coerce \<Rightarrow> Inr Null)
                 | Some (x, maybe_int) \<Rightarrow>
                     (if maybe_int \<and> (x < - (2 ^ 63) \<or> 2 ^ 64 - 1 < x) \<and> mode = Raise
                      then Inl ValueError else Inr (Number x)))))"

definition to_numeric :: "errors_mode \<Rightarrow> string option list \<Rightarrow> py_error + series" where
  "to_numeric mode vs =
     (case traverse (to_numeric_value mode) vs of
        Inl e \<Rightarrow> Inl e
      | Inr cs \<Rightarrow> Inr \<lparr>dtype = Float64, cells = cs\<rparr>)"

text \<open>\<^verbatim>\<open>pd.to_numeric(series.str.replace(",", ""), errors=mode)\<close>.\<close>

definition to_numeric_without_commas :: "errors_mode \<Rightarrow> series \<Rightarrow> py_error + series" where
  "to_numeric_without_commas mode s =
     (case str_accessor s of
        Inl e \<Rightarrow> Inl e
      | Inr cs \<Rightarrow> to_numeric mode (map str_replace_comma cs))"

section \<open>\<^verbatim>\<open>TwseOpenApi.infer_column_type\<close>\<close>

text \<open>
  The date test (lines 71 to 85).  \<open>Inr True\<close>: the method returns \<^verbatim>\<open>"date"\<close>; \<open>Inr False\<close>:
  it goes on to the numeric test; \<open>Inl\<close>: the error leaves the method.  The call of
  \<^verbatim>\<open>series.str.match\<close> on line 80 stands outside every \<^verbatim>\<open>try\<close>.
\<close>

definition date_test :: "series \<Rightarrow> bool \<Rightarrow> py_error + bool" where
  "date_test s is_taiwanese =
     (if \<not> is_taiwanese then
        (case to_datetime_series Raise s of
           Inr _ \<Rightarrow> Inr True
         | Inl ValueError \<Rightarrow> Inr False
         | Inl e \<Rightarrow> Inl e)
      else
        (case str_accessor s of
           Inl e \<Rightarrow> Inl e
         | Inr cs \<Rightarrow>
             (if series_all (map str_match cs) then
                (case apply_parse_taiwanese_date s of
                   Inr _ \<Rightarrow> Inr True
                 | Inl e \<Rightarrow> Inr False)
              else Inr False)))"

text \<open>The numeric test (lines 88 to 92), with its \<^verbatim>\<open>except (ValueError, AttributeError)\<close>.\<close>

definition numeric_test :: "series \<Rightarrow> py_error + bool" where
  "numeric_test s =
     (case to_numeric_without_commas Raise s of
        Inr _ \<Rightarrow> Inr True
      | Inl ValueError \<Rightarrow> Inr False
      | Inl AttributeError \<Rightarrow> Inr False
      | Inl e \<Rightarrow> Inl e)"

definition infer_column_type :: "series \<Rightarrow> bool \<Rightarrow> py_error + string" where
  "infer_column_type series0 is_taiwanese =
     (let s = replace_sentinel series0 in
      case date_test s is_taiwanese of
        Inl e \<Rightarrow> Inl e
      | Inr True \<Rightarrow> Inr ''date''
      | Inr False \<Rightarrow>
          (case numeric_test s of
             Inl e \<Rightarrow> Inl e
           | Inr True \<Rightarrow> Inr ''numeric''
           | Inr False \<Rightarrow> Inr ''categorical''))"

section \<open>\<^verbatim>\<open>TwseOpenApi.parse_data\<close>\<close>

record TwseOpenApi =
  base_url :: string
  return_raw :: bool

text \<open>The keyword arguments of \<^verbatim>\<open>parse_data\<close> other than the override mapping.\<close>

record parse_options =
  parse_dates :: bool
  parse_numbers :: bool
  parse_categories :: bool
  is_taiwanese_date :: bool

definition default_options :: parse_options where
  "default_options =
     \<lparr>parse_dates = True, parse_numbers = True, parse_categories = True, is_taiwanese_date = True\<rparr>"

text \<open>The branches of lines 137 to 151 for one column.\<close>

definition convert_column :: "parse_options \<Rightarrow> string \<Rightarrow> series \<Rightarrow> py_error + series" where
  "convert_column opts col_type s =
     (if col_type = ''date'' \<and> parse_dates opts then
        (if is_taiwanese_date opts then apply_parse_taiwanese_date s
         else to_datetime_series Coerce s)
      else if col_type = ''numeric'' \<and> parse_numbers opts then to_numeric_without_commas Coerce s
      else if col_type = ''categorical'' \<and> parse_categories opts then Inr (astype CategoryD s)
      else Inr (astype StringD s))"

text \<open>
  Line 135: \<^verbatim>\<open>force_column_type.get(col, self.infer_column_type(df[col]))\<close>.  Python evaluates
  the default first, so the inference runs (in its local-era mode, whatever the options
  say) also for a forced column.
\<close>

definition column_type :: "(string \<rightharpoonup> string) \<Rightarrow> string \<Rightarrow> series \<Rightarrow> py_error + string" where
  "column_type force_column_type col s =
     (case infer_column_type s True of
        Inl e \<Rightarrow> Inl e
      | Inr inferred \<Rightarrow>
          Inr (case force_column_type col of Some forced \<Rightarrow> forced | None \<Rightarrow> inferred))"

definition parse_column ::
  "parse_options \<Rightarrow> (string \<rightharpoonup> string) \<Rightarrow> string \<times> series \<Rightarrow> py_error + string \<times> series" where
  "parse_column opts force_column_type p =
     (case p of (col, s0) \<Rightarrow>
        (let s = replace_sentinel s0 in
         case column_type force_column_type col s of
           Inl e \<Rightarrow> Inl e
         | Inr col_type \<Rightarrow>
             (case convert_column opts col_type s of
                Inl e \<Rightarrow> Inl e
              | Inr s' \<Rightarrow> Inr (col, s'))))"

text \<open>
  \<^verbatim>\<open>parse_data\<close> from line 128 on, for the frame that line 126 has built.  The loop over the
  columns stops at the first error.
\<close>

definition parse_frame ::
  "TwseOpenApi \<Rightarrow> parse_options \<Rightarrow> (string \<rightharpoonup> string) \<Rightarrow> frame \<Rightarrow> py_error + frame" where
  "parse_frame self opts force_column_type df =
     (if return_raw self then Inr df
      else traverse (parse_column opts force_column_type) df)"

definition parse_data ::
  "TwseOpenApi \<Rightarrow> raw_record list \<Rightarrow> parse_options \<Rightarrow> (string \<rightharpoonup> string) \<Rightarrow> py_error + frame" where
  "parse_data self data opts force_column_type =
     parse_frame self opts force_column_type (DataFrame data)"

section \<open>\<^verbatim>\<open>TwseOpenApi.get_industry_eps_stat_info\<close>\<close>

text \<open>
  What \<^verbatim>\<open>requests.get\<close> gives back, as far as the method looks at it: the status code and the
  decoded JSON body.
\<close>

record response =
  status_code :: int
  json :: "raw_record list"

definition endpoint :: string where
  "endpoint = ''opendata/t187ap14_L''"

text \<open>The four Chinese column names of the override mapping, as their UTF-8 bytes.\<close>

definition col_year :: string where
  "col_year = [CHR 0xE5, CHR 0xB9, CHR 0xB4, CHR 0xE5, CHR 0xBA, CHR 0xA6]"

definition col_quarter :: string where
  "col_quarter = [CHR 0xE5, CHR 0xAD, CHR 0xA3, CHR 0xE5, CHR 0x88, CHR 0xA5]"

definition col_company_code :: string where
  "col_company_code =
     [CHR 0xE5, CHR 0x85, CHR 0xAC, CHR 0xE5, CHR 0x8F, CHR 0xB8,
      CHR 0xE4, CHR 0xBB, CHR 0xA3, CHR 0xE8, CHR 0x99, CHR 0x9F]"

definition col_company_name :: string where
  "col_company_name =
     [CHR 0xE5, CHR 0x85, CHR 0xAC, CHR 0xE5, CHR 0x8F, CHR 0xB8,
      CHR 0xE5, CHR 0x90, CHR 0x8D, CHR 0xE7, CHR 0xA8, CHR 0xB1]"

definition eps_force_column_type :: "string \<rightharpoonup> string" where
  "eps_force_column_type =
     map_of [(col_year, ''categorical''), (col_quarter, ''categorical''),
             (col_company_code, ''categorical''), (col_company_name, ''string'')]"

text \<open>
  The outside world of the method: the answers the server will give to the next requests,
  the URLs requested so far, and the lines printed so far.  \<^verbatim>\<open>requests.get\<close> takes the next
  answer (and raises when none arrives); \<^verbatim>\<open>print\<close> adds a line.
\<close>

record world =
  pending :: "response list"
  requested :: "string list"
  stdout :: "string list"

definition requests_get :: "string \<Rightarrow> world \<Rightarrow> py_error + response \<times> world" where
  "requests_get url w =
     (case pending w of
        [] \<Rightarrow> Inl ConnectionError
      | r # rs \<Rightarrow> Inr (r, w\<lparr>pending := rs, requested := requested w @ [url]\<rparr>))"

definition print_line :: "string \<Rightarrow> world \<Rightarrow> world" where
  "print_line l w = w\<lparr>stdout := stdout w @ [l]\<rparr>"

text \<open>The method: the value returned (\<open>None\<close> for Python's \<^verbatim>\<open>None\<close>) and the world after it.\<close>

definition get_industry_eps_stat_info ::
  "TwseOpenApi \<Rightarrow> world \<Rightarrow> py_error + frame option \<times> world" where
  "get_industry_eps_stat_info self w =
     (let url = base_url self @ endpoint in
      case requests_get url w of
        Inl e \<Rightarrow> Inl e
      | Inr (response, w1) \<Rightarrow>
          (if status_code response = 200 then
             (case parse_data self (json response) default_options eps_force_column_type of
                Inl e \<Rightarrow> Inl e
              | Inr df \<Rightarrow> Inr (Some df, w1))
           else
             Inr (None,
                  print_line (''Error '' @ str_of_int (status_code response)
                              @ '' fetching data from '' @ url @ ''.'') w1)))"

section \<open>The notions of the specification\<close>

text \<open>
  A local-era date is written with exactly seven digits: three for the era year (the
  calendar year less 1911), two for the month, two for the day.
\<close>

definition seven_digits :: "string \<Rightarrow> bool" where
  "seven_digits s = (length s = 7 \<and> list_all is_digit s)"

definition era_date :: "string \<Rightarrow> int \<times> int \<times> int" where
  "era_date s = (digits_val (take 3 s) + 1911, digits_val (take 2 (drop 3 s)), digits_val (drop 5 s))"

definition calendar_valid :: "string \<Rightarrow> bool" where
  "calendar_valid s = (case era_date s of (y, m, d) \<Rightarrow> valid_date y m d)"



text \<open>What seven digits decode to, valid or not.\<close>

definition decode_local_era :: "string \<Rightarrow> parsed" where
  "decode_local_era s =
     (case era_date s of (y, m, d) \<Rightarrow>
        if valid_date y m d \<and> in_timestamp_range y m d then TS (Timestamp y m d) else NaT)"

text \<open>The result of \<^verbatim>\<open>parse_taiwanese_date\<close>, once it is known to return.\<close>

definition parse_value :: "cell \<Rightarrow> parsed" where
  "parse_value v = (case parse_taiwanese_date v of Inr r \<Rightarrow> r | Inl e \<Rightarrow> NoneV)"

text \<open>A value that is a text of length seven; a text whose parse fails inside the \<^verbatim>\<open>try\<close> block.\<close>

definition is_text7 :: "cell \<Rightarrow> bool" where
  "is_text7 v = (case v of Text s \<Rightarrow> length s = 7 | _ \<Rightarrow> False)"

definition parse_fails :: "cell \<Rightarrow> bool" where
  "parse_fails v =
     (case v of
        Text s \<Rightarrow>
          (case py_int (take 3 s) of
             Inl e \<Rightarrow> True
           | Inr n \<Rightarrow>
               (case strptime_Ymd (str_of_int (n + 1911) @ drop 3 s) of
                  Inl e \<Rightarrow> True
                | Inr r \<Rightarrow> False))
      | _ \<Rightarrow> False)"

text \<open>\<^verbatim>\<open>None\<close> and \<^verbatim>\<open>NaT\<close> are the null results.\<close>

definition null_result :: "py_error + parsed \<Rightarrow> bool" where
  "null_result r = (r = Inr NoneV \<or> r = Inr NaT)"



text \<open>The cells of a column of seven-digit texts, valid as dates or not.\<close>

definition seven_digit_cell :: "cell \<Rightarrow> bool" where
  "seven_digit_cell c =
     (case c of Null \<Rightarrow> True | Text x \<Rightarrow> x = ''--'' \<or> seven_digits x | _ \<Rightarrow> False)"

text \<open>A column as \<^verbatim>\<open>pd.DataFrame\<close> builds it from the records: texts and missing values.\<close>

definition is_raw_cell :: "cell \<Rightarrow> bool" where
  "is_raw_cell c = (case c of Null \<Rightarrow> True | Text x \<Rightarrow> True | _ \<Rightarrow> False)"

definition raw_series :: "series \<Rightarrow> bool" where
  "raw_series s = (dtype s = ObjectD \<and> list_all is_raw_cell (cells s))"

text \<open>
  The type tests in the words of the specification.  The date test applies when every value
  that is not missing matches seven digits (local-era mode) or parses as a date (the other
  mode); the numeric test applies when every value parses as a number once the commas are
  gone; the first test that applies wins, and \<^verbatim>\<open>"categorical"\<close> is the default.
\<close>

definition date_applies :: "bool \<Rightarrow> cell list \<Rightarrow> bool" where
  "date_applies is_taiwanese cs =
     (if is_taiwanese then list_all (\<lambda>c. str_match c \<noteq> Some False) cs
      else list_all (\<lambda>c. \<not> isl (to_datetime_cell Raise c)) cs)"

definition numeric_applies :: "cell list \<Rightarrow> bool" where
  "numeric_applies cs = list_all (\<lambda>c. \<not> isl (to_numeric_value Raise (str_replace_comma c))) cs"

definition first_matching_type :: "bool \<Rightarrow> cell list \<Rightarrow> string" where
  "first_matching_type is_taiwanese cs =
     (if date_applies is_taiwanese cs then ''date''
      else if numeric_applies cs then ''numeric''
      else ''categorical'')"

text \<open>
  The conversions of \<^verbatim>\<open>parse_data\<close>, value by value: what \<^verbatim>\<open>errors="coerce"\<close> makes of one
  cell, and what the column of an effective type \<open>col_type\<close> holds for a cell.
\<close>

definition to_datetime_coerce :: "cell \<Rightarrow> cell" where
  "to_datetime_coerce c = (case to_datetime_cell Coerce c of Inr x \<Rightarrow> x | Inl e \<Rightarrow> Null)"

definition to_numeric_coerce :: "cell \<Rightarrow> cell" where
  "to_numeric_coerce c =
     (case to_numeric_value Coerce (str_replace_comma c) of Inr x \<Rightarrow> x | Inl e \<Rightarrow> Null)"

definition convert_cell :: "parse_options \<Rightarrow> string \<Rightarrow> cell \<Rightarrow> cell" where
  "convert_cell opts col_type c =
     (if col_type = ''date'' \<and> parse_dates opts then
        (if is_taiwanese_date opts then cell_of_parsed (parse_value c) else to_datetime_coerce c)
      else if col_type = ''numeric'' \<and> parse_numbers opts then to_numeric_coerce c
      else c)"

text \<open>The same for a value of the input, where the sentinel counts as missing.\<close>

definition convert_value :: "parse_options \<Rightarrow> string \<Rightarrow> cell \<Rightarrow> cell" where
  "convert_value opts col_type v = convert_cell opts col_type (if v = Text ''--'' then Null else v)"

text \<open>The column that the branches of lines 137 to 151 build when nothing raises.\<close>

definition converted_dtype :: "parse_options \<Rightarrow> string \<Rightarrow> series \<Rightarrow> dtype" where
  "converted_dtype opts col_type s =
     (if col_type = ''date'' \<and> parse_dates opts then
        (if is_taiwanese_date opts then
           (if cells s = [] then dtype s
            else if list_all (\<lambda>c. parse_value c = NoneV) (cells s) then ObjectD else Datetime64)
         else Datetime64)
      else if col_type = ''numeric'' \<and> parse_numbers opts then Float64
      else if col_type = ''categorical'' \<and> parse_categories opts then CategoryD
      else StringD)"

definition converted :: "parse_options \<Rightarrow> string \<Rightarrow> series \<Rightarrow> series" where
  "converted opts col_type s =
     \<lparr>dtype = converted_dtype opts col_type s, cells = map (convert_cell opts col_type) (cells s)\<rparr>"

text \<open>The effective type of a column: the forced one if there is one, else the inferred one.\<close>

definition effective_type :: "(string \<rightharpoonup> string) \<Rightarrow> string \<Rightarrow> series \<Rightarrow> string" where
  "effective_type force_column_type col s =
     (case force_column_type col of
        Some forced \<Rightarrow> forced
      | None \<Rightarrow> first_matching_type True (cells (replace_sentinel s)))"

text \<open>The column of the output for the column \<open>c\<close> of the input.\<close>

definition normalized_column :: "parse_options \<Rightarrow> (string \<rightharpoonup> string) \<Rightarrow> raw_record list \<Rightarrow> string \<Rightarrow> series" where
  "normalized_column opts force_column_type data c =
     converted opts (effective_type force_column_type c (replace_sentinel (raw_column data c)))
       (replace_sentinel (raw_column data c))"

text \<open>Objects and inputs for the examples.\<close>

definition example_api :: TwseOpenApi where
  "example_api = \<lparr>base_url = ''https://openapi.twse.com.tw/v1/'', return_raw = False\<rparr>"

definition example_raw_api :: TwseOpenApi where
  "example_raw_api = \<lparr>base_url = ''https://openapi.twse.com.tw/v1/'', return_raw = True\<rparr>"

definition example_data :: "raw_record list" where
  "example_data =
     [[(''a'', Some ''100''), (''b'', Some ''x'')],
      [(''a'', Some ''--'')],
      [(''a'', Some ''1,200.5''), (''b'', Some ''y'')]]"

definition example_world :: "int \<Rightarrow> world" where
  "example_world code =
     \<lparr>pending = [\<lparr>status_code = code, json = [[(col_year, Some ''113''), (''eps'', Some ''10.5'')]]\<rparr>,
                 \<lparr>status_code = 200, json = []\<rparr>],
      requested = [], stdout = []\<rparr>"

text \<open>
  A numeric text, optionally with thousands separators: an optional minus sign, digits and
  commas with at least one digit, and optionally a point followed by digits.  Its value is
  the number that the digits denote.
\<close>

definition digit_or_comma :: "char \<Rightarrow> bool" where
  "digit_or_comma c = (is_digit c \<or> c = CHR '','')"

definition numeric_string :: "string \<Rightarrow> bool" where
  "numeric_string s =
     (let u = (if s \<noteq> [] \<and> hd s = CHR ''-'' then tl s else s);
          ip = takeWhile digit_or_comma u;
          fr = dropWhile digit_or_comma u
      in list_ex is_digit ip \<and> (fr = [] \<or> (hd fr = CHR ''.'' \<and> list_all is_digit (tl fr))))"






text \<open>A column of a frame on which the \<^verbatim>\<open>.str\<close> accessor works: neither numeric nor datetime.\<close>

definition text_like_column :: "string \<times> series \<Rightarrow> bool" where
  "text_like_column p = (dtype (snd p) \<noteq> Float64 \<and> dtype (snd p) \<noteq> Datetime64)"

section \<open>Digits and the text of a year\<close>

lemma is_digit_cases:
  "is_digit c \<longleftrightarrow> c = CHR ''0'' \<or> c = CHR ''1'' \<or> c = CHR ''2'' \<or> c = CHR ''3'' \<or> c = CHR ''4''
     \<or> c = CHR ''5'' \<or> c = CHR ''6'' \<or> c = CHR ''7'' \<or> c = CHR ''8'' \<or> c = CHR ''9''"
  by (auto simp: is_digit_def)

lemma digit_val_range: "is_digit c \<Longrightarrow> 0 \<le> digit_val c \<and> digit_val c \<le> 9"
  by (auto simp: is_digit_cases digit_val_def)

lemma digit_not_special:
  "is_digit c \<Longrightarrow> c \<noteq> CHR ''_'' \<and> c \<noteq> CHR ''-'' \<and> c \<noteq> CHR ''+'' \<and> c \<noteq> CHR '','' \<and> c \<noteq> CHR ''.'' \<and> \<not> is_py_space c \<and> \<not> is_c_space c"
  by (auto simp: is_digit_cases is_py_space_def is_c_space_def)

lemma small_nat_cases:
  "n < 10 \<Longrightarrow> n \<in> {0, 1, 2, 3, 4, 5, 6, 7, 8, 9 :: nat}"
  by auto

lemma digit_char_digit: "n < 10 \<Longrightarrow> is_digit (digit_char n) \<and> digit_val (digit_char n) = int n"
  using small_nat_cases[of n]
  by (auto simp: digit_char_def is_digit_cases digit_val_def)

lemma str_of_nat_small: "n < 10 \<Longrightarrow> str_of_nat n = [digit_char n]"
  using str_of_nat.simps[of n] by simp

lemma str_of_nat_step:
  "\<not> n < 10 \<Longrightarrow> str_of_nat n = str_of_nat (n div 10) @ [digit_char (n mod 10)]"
  using str_of_nat.simps[of n] by simp

lemma str_of_nat_4:
  assumes "1000 \<le> n" "n < 10000"
  shows "str_of_nat n = [digit_char (n div 1000), digit_char (n div 100 mod 10),
                         digit_char (n div 10 mod 10), digit_char (n mod 10)]"
proof -
  have f: "\<not> n < 10" "\<not> n div 10 < 10" "\<not> n div 100 < 10" "n div 1000 < 10"
    using assms by arith+
  have e: "n div 10 div 10 = n div 100" "n div 100 div 10 = n div 1000"
    by (simp_all add: div_mult2_eq[symmetric])
  have a: "str_of_nat n = str_of_nat (n div 10) @ [digit_char (n mod 10)]"
    using f(1) by (rule str_of_nat_step)
  have b: "str_of_nat (n div 10) = str_of_nat (n div 100) @ [digit_char (n div 10 mod 10)]"
    using str_of_nat_step[OF f(2)] by (simp only: e)
  have c: "str_of_nat (n div 100) = str_of_nat (n div 1000) @ [digit_char (n div 100 mod 10)]"
    using str_of_nat_step[OF f(3)] by (simp only: e)
  have d: "str_of_nat (n div 1000) = [digit_char (n div 1000)]"
    using f(4) by (rule str_of_nat_small)
  show ?thesis unfolding a b c d by simp
qed

lemma digits_val_snoc: "digits_val (ds @ [c]) = 10 * digits_val ds + digit_val c"
  by (simp add: digits_val_def)

lemma digits_val_nil: "digits_val [] = 0"
  by (simp add: digits_val_def)

lemma digits_val_bounds:
  "list_all is_digit ds \<Longrightarrow> 0 \<le> digits_val ds \<and> digits_val ds < 10 ^ length ds"
proof (induction ds rule: rev_induct)
  case Nil
  then show ?case by (simp add: digits_val_nil)
next
  case (snoc c ds)
  then have "0 \<le> digits_val ds" "digits_val ds < 10 ^ length ds" "0 \<le> digit_val c" "digit_val c \<le> 9"
    using digit_val_range[of c] by auto
  then show ?case by (simp add: digits_val_snoc)
qed

lemma digits_val_4:
  "digits_val [a, b, c, d] = 1000 * digit_val a + 100 * digit_val b + 10 * digit_val c + digit_val d"
  by (simp add: digits_val_def)

lemma int_literal_digits: "list_all is_digit ds \<Longrightarrow> ds \<noteq> [] \<Longrightarrow> int_literal ds"
  by (induction ds rule: int_literal.induct) (auto dest: digit_not_special)

lemma filter_digits: "list_all is_digit ds \<Longrightarrow> filter (\<lambda>c. c \<noteq> x) ds = ds \<or> is_digit x"
  by (induction ds) auto

lemma py_strip_digits: "list_all is_digit ds \<Longrightarrow> py_strip ds = ds"
proof (cases ds rule: rev_cases)
  case Nil
  then show ?thesis by (simp add: py_strip_def)
next
  case (snoc ys y)
  assume d: "list_all is_digit ds"
  have 1: "dropWhile is_py_space ds = ds"
    using d by (cases ds) (auto dest: digit_not_special)
  have 2: "dropWhile is_py_space (rev ds) = rev ds"
    using d snoc by (auto dest: digit_not_special)
  show ?thesis by (simp add: py_strip_def 1 2)
qed

lemma py_int_digits:
  assumes "list_all is_digit ds" "ds \<noteq> []"
  shows "py_int ds = Inr (digits_val ds)"
proof -
  have h: "hd ds \<noteq> CHR ''-''" "hd ds \<noteq> CHR ''+''"
    using assms by (cases ds; auto dest: digit_not_special)+
  have f: "filter (\<lambda>c. c \<noteq> CHR ''_'') ds = ds"
    using filter_digits[OF assms(1), of "CHR ''_''"] by (auto simp: is_digit_cases)
  show ?thesis
    using assms h f by (simp add: py_int_def py_strip_digits int_literal_digits Let_def)
qed

lemma decimal_split_4:
  "int k = 1000 * int (k div 1000) + 100 * int (k div 100 mod 10)
                   + 10 * int (k div 10 mod 10) + int (k mod 10)"
proof -
  have a: "k = 10 * (k div 10) + k mod 10" by simp
  have b: "k div 10 = 10 * (k div 100) + k div 10 mod 10"
    using mult_div_mod_eq[of 10 "k div 10"] by (simp add: div_mult2_eq[symmetric])
  have c: "k div 100 = 10 * (k div 1000) + k div 100 mod 10"
    using mult_div_mod_eq[of 10 "k div 100"] by (simp add: div_mult2_eq[symmetric])
  have "k = 1000 * (k div 1000) + 100 * (k div 100 mod 10) + 10 * (k div 10 mod 10) + k mod 10"
    using a b c by linarith
  then have "int k = int (1000 * (k div 1000) + 100 * (k div 100 mod 10) + 10 * (k div 10 mod 10) + k mod 10)"
    by simp
  then show ?thesis by simp
qed

lemma year_text:
  assumes "1000 \<le> k" "k < 10000"
  shows "length (str_of_nat k) = 4 \<and> list_all is_digit (str_of_nat k) \<and> digits_val (str_of_nat k) = int k"
proof -
  have lt: "k div 1000 < 10" "k div 100 mod 10 < 10" "k div 10 mod 10 < 10" "k mod 10 < 10"
    using assms by arith+
  show ?thesis
    using digit_char_digit[OF lt(1)] digit_char_digit[OF lt(2)] digit_char_digit[OF lt(3)]
      digit_char_digit[OF lt(4)] decimal_split_4[of k]
    by (simp add: str_of_nat_4[OF assms] digits_val_4)
qed

lemma not_nat_string_8: "length s = 8 \<Longrightarrow> \<not> is_nat_string s"
  by (auto simp: is_nat_string_def)

lemma strptime_8digits:
  assumes "length s = 8" "list_all is_digit s"
  shows "strptime_Ymd s =
     (let y = digits_val (take 4 s); m = digits_val (take 2 (drop 4 s)); d = digits_val (drop 6 s)
      in if valid_date y m d \<and> in_timestamp_range y m d
         then Inr (Some (Timestamp y m d)) else Inl ValueError)"
  using assms by (simp add: strptime_Ymd_def not_nat_string_8)

section \<open>\<^verbatim>\<open>parse_taiwanese_date\<close> on seven digits\<close>

lemma parse_taiwanese_date_7digits:
  assumes len: "length s = 7" and dig: "list_all is_digit s"
  shows "parse_taiwanese_date (Text s) = Inr (decode_local_era s)"
proof -
  define n where "n = digits_val (take 3 s)"
  define k where "k = nat (n + 1911)"
  have d3: "list_all is_digit (take 3 s)" "take 3 s \<noteq> []" "length (take 3 s) = 3"
    using len dig by (auto simp: list_all_iff dest: in_set_takeD)
  have n: "0 \<le> n" "n < 1000"
    using digits_val_bounds[OF d3(1)] d3(3) by (simp_all add: n_def)
  have k: "1000 \<le> k" "k < 10000" "int k = n + 1911"
    using n by (simp_all add: k_def)
  have pi: "py_int (take 3 s) = Inr n"
    using py_int_digits[OF d3(1) d3(2)] by (simp add: n_def)
  have si: "str_of_int (n + 1911) = str_of_nat k"
    using n by (simp add: str_of_int_def k_def)
  note yt = year_text[OF k(1) k(2)]
  define g where "g = str_of_nat k @ drop 3 s"
  have g8: "length g = 8" using yt len by (simp add: g_def)
  have gd: "list_all is_digit g"
    using yt dig by (auto simp: g_def list_all_iff dest: in_set_dropD)
  have parts: "take 4 g = str_of_nat k" "take 2 (drop 4 g) = take 2 (drop 3 s)" "drop 6 g = drop 5 s"
    using yt by (simp_all add: g_def)
  have "strptime_Ymd g =
     (if valid_date (n + 1911) (digits_val (take 2 (drop 3 s))) (digits_val (drop 5 s))
         \<and> in_timestamp_range (n + 1911) (digits_val (take 2 (drop 3 s))) (digits_val (drop 5 s))
      then Inr (Some (Timestamp (n + 1911) (digits_val (take 2 (drop 3 s))) (digits_val (drop 5 s))))
      else Inl ValueError)"
    using yt k(3) by (simp add: strptime_8digits[OF g8 gd] parts Let_def)
  then have "to_datetime_scalar Coerce g = Inr (decode_local_era s)"
    by (simp add: to_datetime_scalar_def decode_local_era_def era_date_def n_def)
  then have "parse_try_body s = Inr (decode_local_era s)"
    by (simp add: parse_try_body_def pi si g_def Let_def)
  then show ?thesis
    using len by (simp add: parse_taiwanese_date_def)
qed

section \<open>Running a fallible function over a list\<close>

lemma traverse_map:
  "(\<And>x. x \<in> set xs \<Longrightarrow> f x = Inr (g x)) \<Longrightarrow> traverse f xs = Inr (map g xs)"
  by (induction xs) auto

lemma traverse_Inl:
  "traverse f xs = Inl e \<Longrightarrow> \<exists>x \<in> set xs. f x = Inl e"
  by (induction xs) (auto split: sum.splits)

lemma traverse_Inr:
  "traverse f xs = Inr ys \<Longrightarrow> list_all2 (\<lambda>x y. f x = Inr y) xs ys"
  by (induction xs arbitrary: ys) (auto split: sum.splits)

lemma traverse_fails:
  "x \<in> set xs \<Longrightarrow> f x = Inl e \<Longrightarrow> \<exists>e'. traverse f xs = Inl e'"
  by (induction xs) (auto split: sum.splits)

section \<open>The tests of \<^verbatim>\<open>infer_column_type\<close>\<close>

lemma parse_taiwanese_date_Inr: "parse_taiwanese_date v = Inr (parse_value v)"
  by (auto simp: parse_value_def parse_taiwanese_date_def split: cell.splits sum.splits)

lemma parse_value_not_text: "(\<And>s. v \<noteq> Text s) \<Longrightarrow> parse_value v = NoneV"
  by (cases v) (auto simp: parse_value_def parse_taiwanese_date_def)

lemma parse_value_7digits: "seven_digits s \<Longrightarrow> parse_value (Text s) = decode_local_era s"
  by (simp add: parse_value_def parse_taiwanese_date_7digits seven_digits_def)

lemma apply_parse_Inr:
  "apply_parse_taiwanese_date s =
     Inr \<lparr>dtype = (if cells s = [] then dtype s
                    else if list_all (\<lambda>r. r = NoneV) (map parse_value (cells s)) then ObjectD else Datetime64),
          cells = map (\<lambda>c. cell_of_parsed (parse_value c)) (cells s)\<rparr>"
proof -
  have "traverse parse_taiwanese_date (cells s) = Inr (map parse_value (cells s))"
    by (rule traverse_map) (rule parse_taiwanese_date_Inr)
  then show ?thesis by (simp add: apply_parse_taiwanese_date_def comp_def)
qed

lemma replace_sentinel_simps:
  "dtype (replace_sentinel s) = dtype s"
  "cells (replace_sentinel s) = map (\<lambda>c. if c = Text ''--'' then Null else c) (cells s)"
  by (simp_all add: replace_sentinel_def)

lemma replace_sentinel_idem: "replace_sentinel (replace_sentinel s) = replace_sentinel s"
  by (simp add: replace_sentinel_def comp_def)

lemma date_test_local_era:
  "dtype s \<noteq> Float64 \<Longrightarrow> dtype s \<noteq> Datetime64 \<Longrightarrow>
   date_test s True = Inr (series_all (map str_match (cells s)))"
  by (simp add: date_test_def str_accessor_def apply_parse_Inr)

lemma date_test_local_era_fails:
  "dtype s = Float64 \<or> dtype s = Datetime64 \<Longrightarrow> date_test s True = Inl AttributeError"
  by (auto simp add: date_test_def str_accessor_def)

lemma to_numeric_value_error: "to_numeric_value mode v = Inl e \<Longrightarrow> e = ValueError \<and> mode = Raise"
  by (auto simp: to_numeric_value_def split: option.splits if_splits errors_mode.splits)

lemma to_numeric_error: "to_numeric mode vs = Inl e \<Longrightarrow> e = ValueError \<and> mode = Raise"
  by (auto simp: to_numeric_def split: sum.splits dest!: traverse_Inl to_numeric_value_error)

lemma numeric_test_Inr: "\<exists>b. numeric_test s = Inr b"
proof (cases "to_numeric_without_commas Raise s")
  case (Inl e)
  then have "e = ValueError \<or> e = AttributeError"
    by (auto simp: to_numeric_without_commas_def str_accessor_def split: if_splits dest: to_numeric_error)
  with Inl show ?thesis by (auto simp: numeric_test_def)
next
  case (Inr a)
  then show ?thesis by (auto simp add: numeric_test_def)
qed

lemma strptime_error: "strptime_Ymd s = Inl e \<Longrightarrow> e = ValueError"
  by (auto simp: strptime_Ymd_def Let_def split: if_splits)

lemma to_datetime_cell_error: "to_datetime_cell mode c = Inl e \<Longrightarrow> e = ValueError \<and> mode = Raise"
  by (auto simp: to_datetime_cell_def to_datetime_scalar_def
      split: cell.splits errors_mode.splits sum.splits option.splits dest: strptime_error)

lemma to_datetime_series_error: "to_datetime_series mode s = Inl e \<Longrightarrow> e = ValueError \<and> mode = Raise"
  by (auto simp: to_datetime_series_def split: sum.splits dest!: traverse_Inl to_datetime_cell_error)

lemma date_test_iso_Inr: "\<exists>b. date_test s False = Inr b"
proof (cases "to_datetime_series Raise s")
  case (Inl e)
  then have "e = ValueError" by (auto dest: to_datetime_series_error)
  with Inl show ?thesis by (auto simp add: date_test_def)
next
  case (Inr a)
  then show ?thesis by (auto simp add: date_test_def)
qed

lemma infer_result:
  assumes "date_test (replace_sentinel s) tw = Inr b"
  shows "\<exists>t. infer_column_type s tw = Inr t \<and> (t = ''date'' \<or> t = ''numeric'' \<or> t = ''categorical'')
            \<and> (t = ''date'' \<longleftrightarrow> b)
            \<and> (t = ''numeric'' \<longleftrightarrow> \<not> b \<and> numeric_test (replace_sentinel s) = Inr True)"
proof -
  obtain n where n: "numeric_test (replace_sentinel s) = Inr n"
    using numeric_test_Inr[of "replace_sentinel s"] by blast
  show ?thesis
    using assms n by (cases b; cases n) (simp_all add: infer_column_type_def Let_def)
qed

lemma seven_digits_match: "seven_digits x \<Longrightarrow> re_match_7digits x"
  by (simp add: seven_digits_def re_match_7digits_def)

lemma seven_digit_cells_all:
  assumes "list_all seven_digit_cell cs"
  shows "series_all (map (\<lambda>c. str_match (if c = Text ''--'' then Null else c)) cs)"
  using assms
  by (induction cs)
     (auto simp: series_all_def str_match_def seven_digit_cell_def seven_digits_match split: cell.splits)

lemma infer_seven_digit_column:
  assumes "dtype s = ObjectD" "list_all seven_digit_cell (cells s)"
  shows "infer_column_type s True = Inr ''date''"
proof -
  have "date_test (replace_sentinel s) True = Inr True"
    using assms by (simp add: date_test_local_era replace_sentinel_simps seven_digit_cells_all comp_def)
  then show ?thesis by (simp add: infer_column_type_def)
qed

lemma convert_date_local_era:
  "convert_column default_options ''date'' s = apply_parse_taiwanese_date s"
  by (simp add: convert_column_def default_options_def)

section \<open>The claims on \<^verbatim>\<open>parse_taiwanese_date\<close> and on date columns\<close>

text \<open>
  C5.  \<^verbatim>\<open>parse_taiwanese_date\<close> is total: for every value it returns and never raises; a
  value that is not a text of length exactly seven gives \<^verbatim>\<open>None\<close>, and a text whose parse
  fails (in \<^verbatim>\<open>int\<close> or in the date parser) gives a null result, not an error.
\<close>

theorem parse_taiwanese_date_total:
  "(\<exists>r. parse_taiwanese_date v = Inr r) \<and>
   (\<not> is_text7 v \<longrightarrow> parse_taiwanese_date v = Inr NoneV) \<and>
   (parse_fails v \<longrightarrow> null_result (parse_taiwanese_date v))"
proof (intro conjI impI)
  show "\<exists>r. parse_taiwanese_date v = Inr r"
    by (cases v) (auto simp: parse_taiwanese_date_def split: sum.splits)
  show "parse_taiwanese_date v = Inr NoneV" if "\<not> is_text7 v"
    using that by (cases v) (auto simp: parse_taiwanese_date_def is_text7_def)
  show "null_result (parse_taiwanese_date v)" if "parse_fails v"
    using that
    by (cases v)
       (auto simp: parse_taiwanese_date_def parse_fails_def null_result_def parse_try_body_def
          to_datetime_scalar_def Let_def split: sum.splits option.splits)
qed

lemma parse_fails_examples:
  "parse_fails (Text ''1131327'')" "parse_fails (Text ''abc1227'')"
  "\<not> is_text7 (Number 3)" "\<not> is_text7 (Text ''2024-12-27'')"
  by code_simp+

theorem parse_taiwanese_date_total_witness:
  "\<not> is_text7 (Number 3) \<and> parse_taiwanese_date (Number 3) = Inr NoneV \<and>
   \<not> is_text7 (Text ''2024-12-27'') \<and> parse_taiwanese_date (Text ''2024-12-27'') = Inr NoneV \<and>
   parse_fails (Text ''1131327'') \<and> null_result (parse_taiwanese_date (Text ''1131327'')) \<and>
   parse_fails (Text ''abc1227'') \<and> null_result (parse_taiwanese_date (Text ''abc1227''))"
  using parse_taiwanese_date_total[of "Number 3"] parse_taiwanese_date_total[of "Text ''2024-12-27''"]
    parse_taiwanese_date_total[of "Text ''1131327''"] parse_taiwanese_date_total[of "Text ''abc1227''"]
    parse_fails_examples
  by blast



lemma not_seven_digits_sentinel: "\<not> seven_digits ''--''"
  by (simp add: seven_digits_def)






section \<open>The type tests, value by value\<close>

lemma traverse_isl: "isl (traverse f xs) \<longleftrightarrow> \<not> list_all (\<lambda>x. \<not> isl (f x)) xs"
  by (induction xs) (auto split: sum.splits)

lemma series_all_match: "series_all (map str_match cs) = list_all (\<lambda>c. str_match c \<noteq> Some False) cs"
  by (simp add: series_all_def list_all_iff)

lemma date_test_iso: "date_test s False = Inr (date_applies False (cells s))"
proof (cases "to_datetime_series Raise s")
  case (Inl e)
  then have e: "e = ValueError" by (auto dest: to_datetime_series_error)
  have "isl (traverse (to_datetime_cell Raise) (cells s))"
    using Inl by (auto simp: to_datetime_series_def split: sum.splits)
  then have "\<not> date_applies False (cells s)"
    by (simp add: traverse_isl date_applies_def)
  with Inl e show ?thesis by (simp add: date_test_def)
next
  case (Inr a)
  then have "\<not> isl (traverse (to_datetime_cell Raise) (cells s))"
    by (auto simp: to_datetime_series_def split: sum.splits)
  then have "date_applies False (cells s)"
    by (simp add: traverse_isl date_applies_def)
  with Inr show ?thesis by (simp add: date_test_def)
qed

lemma numeric_test_applies:
  assumes "dtype s \<noteq> Float64" "dtype s \<noteq> Datetime64"
  shows "numeric_test s = Inr (numeric_applies (cells s))"
proof -
  have tn: "to_numeric_without_commas Raise s = to_numeric Raise (map str_replace_comma (cells s))"
    using assms by (simp add: to_numeric_without_commas_def str_accessor_def)
  show ?thesis
  proof (cases "to_numeric Raise (map str_replace_comma (cells s))")
    case (Inl e)
    then have e: "e = ValueError" by (auto dest: to_numeric_error)
    have "isl (traverse (to_numeric_value Raise) (map str_replace_comma (cells s)))"
      using Inl by (auto simp: to_numeric_def split: sum.splits)
    then have "\<not> numeric_applies (cells s)"
      by (simp add: traverse_isl numeric_applies_def list_all_iff)
    with Inl e tn show ?thesis by (simp add: numeric_test_def)
  next
    case (Inr a)
    then have "\<not> isl (traverse (to_numeric_value Raise) (map str_replace_comma (cells s)))"
      by (auto simp: to_numeric_def split: sum.splits)
    then have "numeric_applies (cells s)"
      by (simp add: traverse_isl numeric_applies_def list_all_iff)
    with Inr tn show ?thesis by (simp add: numeric_test_def)
  qed
qed

lemma date_test_applies:
  assumes "dtype s \<noteq> Float64" "dtype s \<noteq> Datetime64"
  shows "date_test s tw = Inr (date_applies tw (cells s))"
proof (cases tw)
  case True
  then show ?thesis
    using assms by (simp add: date_test_local_era series_all_match date_applies_def)
next
  case False
  then show ?thesis by (simp add: date_test_iso)
qed

lemma infer_first_matching:
  assumes "dtype s \<noteq> Float64" "dtype s \<noteq> Datetime64"
  shows "infer_column_type s tw = Inr (first_matching_type tw (cells (replace_sentinel s)))"
proof -
  have d: "dtype (replace_sentinel s) \<noteq> Float64" "dtype (replace_sentinel s) \<noteq> Datetime64"
    using assms by (simp_all add: replace_sentinel_simps)
  show ?thesis
    by (simp add: infer_column_type_def date_test_applies[OF d] numeric_test_applies[OF d]
        first_matching_type_def)
qed

lemma infer_numeric_dtype_raises:
  assumes "dtype s = Float64 \<or> dtype s = Datetime64"
  shows "infer_column_type s True = Inl AttributeError"
proof -
  have "dtype (replace_sentinel s) = Float64 \<or> dtype (replace_sentinel s) = Datetime64"
    using assms by (simp add: replace_sentinel_simps)
  then show ?thesis
    by (simp add: infer_column_type_def date_test_local_era_fails)
qed

section \<open>The claims on \<^verbatim>\<open>infer_column_type\<close>\<close>

text \<open>
  C6.  On every column of raw texts and missing values \<^verbatim>\<open>infer_column_type\<close> never raises, in
  either date mode: a parse failure in the date test or in the numeric test only means that
  the test does not apply, the first test that applies gives the tag, and
  \<^verbatim>\<open>"categorical"\<close> is the default; so a tag is always returned.
\<close>

theorem infer_column_type_never_raises:
  assumes "raw_series s"
  shows "infer_column_type s tw = Inr (first_matching_type tw (cells (replace_sentinel s))) \<and>
         (\<exists>t. infer_column_type s tw = Inr t \<and> (t = ''date'' \<or> t = ''numeric'' \<or> t = ''categorical''))"
proof -
  have "infer_column_type s tw = Inr (first_matching_type tw (cells (replace_sentinel s)))"
    using assms by (simp add: infer_first_matching raw_series_def)
  then show ?thesis by (simp add: first_matching_type_def)
qed

lemma never_raises_examples:
  "raw_series \<lparr>dtype = ObjectD, cells = [Text ''12a'', Text ''--'', Null, Text ''1131227'']\<rparr>"
  "first_matching_type True (cells (replace_sentinel
      \<lparr>dtype = ObjectD, cells = [Text ''12a'', Text ''--'', Null, Text ''1131227'']\<rparr>)) = ''categorical''"
  "first_matching_type False (cells (replace_sentinel
      \<lparr>dtype = ObjectD, cells = [Text ''12a'', Text ''--'', Null, Text ''1131227'']\<rparr>)) = ''categorical''"
  by code_simp+

theorem infer_column_type_never_raises_witness:
  "raw_series \<lparr>dtype = ObjectD, cells = [Text ''12a'', Text ''--'', Null, Text ''1131227'']\<rparr> \<and>
   infer_column_type \<lparr>dtype = ObjectD, cells = [Text ''12a'', Text ''--'', Null, Text ''1131227'']\<rparr> True
     = Inr ''categorical'' \<and>
   infer_column_type \<lparr>dtype = ObjectD, cells = [Text ''12a'', Text ''--'', Null, Text ''1131227'']\<rparr> False
     = Inr ''categorical''"
  using infer_column_type_never_raises[OF never_raises_examples(1), of True]
    infer_column_type_never_raises[OF never_raises_examples(1), of False]
    never_raises_examples
  by simp

lemma decode_invalid: "\<not> calendar_valid x \<Longrightarrow> decode_local_era x = NaT"
  by (auto simp: calendar_valid_def decode_local_era_def split: prod.splits)

text \<open>
  C9.  A column whose values are all seven digits (missing values and the sentinel apart) is
  classified \<^verbatim>\<open>"date"\<close> in local-era mode even when the last four digits of a value are no
  month and day: \<^verbatim>\<open>parse_taiwanese_date\<close> gives \<^verbatim>\<open>NaT\<close> for such a value instead of raising,
  and the conversion of the column puts a null in its place.
\<close>

theorem seven_digit_column_is_date:
  assumes "dtype s = ObjectD" and "list_all seven_digit_cell (cells s)"
  shows "infer_column_type s True = Inr ''date'' \<and>
         (\<forall>x. seven_digits x \<and> \<not> calendar_valid x \<longrightarrow> parse_taiwanese_date (Text x) = Inr NaT) \<and>
         (\<exists>s'. convert_column default_options ''date'' (replace_sentinel s) = Inr s' \<and>
               length (cells s') = length (cells s) \<and>
               (\<forall>i < length (cells s). \<forall>x. cells s ! i = Text x \<and> \<not> calendar_valid x \<longrightarrow> cells s' ! i = Null))"
proof (intro conjI allI impI)
  show "infer_column_type s True = Inr ''date''"
    using assms by (rule infer_seven_digit_column)
  show "parse_taiwanese_date (Text x) = Inr NaT" if "seven_digits x \<and> \<not> calendar_valid x" for x
    using that by (simp add: parse_taiwanese_date_Inr parse_value_7digits decode_invalid)
  have inv: "cell_of_parsed (parse_value (if c = Text ''--'' then Null else c)) = Null"
    if "seven_digit_cell c" "c = Text x" "\<not> calendar_valid x" for c x
    using that
    by (auto simp: seven_digit_cell_def parse_value_not_text cell_of_parsed_def parse_value_7digits decode_invalid)
  let ?s' = "\<lparr>dtype = (if cells (replace_sentinel s) = [] then dtype (replace_sentinel s)
                    else if list_all (\<lambda>r. r = NoneV) (map parse_value (cells (replace_sentinel s))) then ObjectD else Datetime64),
          cells = map (\<lambda>c. cell_of_parsed (parse_value c)) (cells (replace_sentinel s))\<rparr>"
  have "convert_column default_options ''date'' (replace_sentinel s) = Inr ?s'"
    by (simp only: convert_date_local_era apply_parse_Inr)
  moreover have "length (cells ?s') = length (cells s)"
    by (simp add: replace_sentinel_simps)
  moreover have "\<forall>i < length (cells s). \<forall>x. cells s ! i = Text x \<and> \<not> calendar_valid x \<longrightarrow> cells ?s' ! i = Null"
  proof (intro allI impI)
    fix i x
    assume i: "i < length (cells s)" and x: "cells s ! i = Text x \<and> \<not> calendar_valid x"
    have "seven_digit_cell (cells s ! i)"
      using assms(2) i by (simp add: list_all_length)
    then have "cell_of_parsed (parse_value (if cells s ! i = Text ''--'' then Null else cells s ! i)) = Null"
      using x by (intro inv[of _ x]) simp_all
    then show "cells ?s' ! i = Null"
      using i by (simp add: replace_sentinel_simps)
  qed
  ultimately show "\<exists>s'. convert_column default_options ''date'' (replace_sentinel s) = Inr s' \<and>
               length (cells s') = length (cells s) \<and>
               (\<forall>i < length (cells s). \<forall>x. cells s ! i = Text x \<and> \<not> calendar_valid x \<longrightarrow> cells s' ! i = Null)"
    by blast
qed

lemma seven_digit_examples:
  "list_all seven_digit_cell [Text ''1131327'', Text ''1131227'']"
  "seven_digits ''1131327''" "\<not> calendar_valid ''1131327''"
  by code_simp+

theorem seven_digit_column_is_date_witness:
  "dtype \<lparr>dtype = ObjectD, cells = [Text ''1131327'', Text ''1131227'']\<rparr> = ObjectD \<and>
   list_all seven_digit_cell (cells \<lparr>dtype = ObjectD, cells = [Text ''1131327'', Text ''1131227'']\<rparr>) \<and>
   infer_column_type \<lparr>dtype = ObjectD, cells = [Text ''1131327'', Text ''1131227'']\<rparr> True = Inr ''date'' \<and>
   seven_digits ''1131327'' \<and> \<not> calendar_valid ''1131327'' \<and>
   parse_taiwanese_date (Text ''1131327'') = Inr NaT \<and>
   (\<exists>s'. convert_column default_options ''date''
            (replace_sentinel \<lparr>dtype = ObjectD, cells = [Text ''1131327'', Text ''1131227'']\<rparr>) = Inr s' \<and>
         length (cells s') = 2 \<and> cells s' ! 0 = Null)"
proof -
  let ?s = "\<lparr>dtype = ObjectD, cells = [Text ''1131327'', Text ''1131227'']\<rparr>"
  have h1: "dtype ?s = ObjectD" by simp
  have h2: "list_all seven_digit_cell (cells ?s)" using seven_digit_examples(1) by simp
  from seven_digit_column_is_date[OF h1 h2]
  obtain s' where a: "infer_column_type ?s True = Inr ''date''"
    and b: "\<forall>x. seven_digits x \<and> \<not> calendar_valid x \<longrightarrow> parse_taiwanese_date (Text x) = Inr NaT"
    and c: "convert_column default_options ''date'' (replace_sentinel ?s) = Inr s'"
    and d: "length (cells s') = length (cells ?s)"
    and e: "\<forall>i < length (cells ?s). \<forall>x. cells ?s ! i = Text x \<and> \<not> calendar_valid x \<longrightarrow> cells s' ! i = Null"
    by blast
  have "cells s' ! 0 = Null" using e seven_digit_examples(3) by simp
  moreover have "length (cells s') = 2" using d by simp
  moreover have "parse_taiwanese_date (Text ''1131327'') = Inr NaT"
    using b seven_digit_examples by blast
  ultimately show ?thesis using a c h1 h2 seven_digit_examples by blast
qed

section \<open>The conversions never fail on a column of texts\<close>

lemma to_datetime_coerce_Inr: "to_datetime_cell Coerce c = Inr (to_datetime_coerce c)"
  by (cases "to_datetime_cell Coerce c") (auto simp: to_datetime_coerce_def dest: to_datetime_cell_error)

lemma to_numeric_coerce_Inr:
  "to_numeric_value Coerce (str_replace_comma c) = Inr (to_numeric_coerce c)"
  by (cases "to_numeric_value Coerce (str_replace_comma c)")
     (auto simp: to_numeric_coerce_def dest: to_numeric_value_error)

lemma to_datetime_series_coerce:
  "to_datetime_series Coerce s = Inr \<lparr>dtype = Datetime64, cells = map to_datetime_coerce (cells s)\<rparr>"
proof -
  have "traverse (to_datetime_cell Coerce) (cells s) = Inr (map to_datetime_coerce (cells s))"
    by (rule traverse_map) (rule to_datetime_coerce_Inr)
  then show ?thesis by (simp add: to_datetime_series_def)
qed

lemma to_numeric_coerce_series:
  assumes "dtype s \<noteq> Float64" "dtype s \<noteq> Datetime64"
  shows "to_numeric_without_commas Coerce s = Inr \<lparr>dtype = Float64, cells = map to_numeric_coerce (cells s)\<rparr>"
proof -
  have "traverse (to_numeric_value Coerce) (map str_replace_comma (cells s))
          = Inr (map (\<lambda>v. case to_numeric_value Coerce v of Inr x \<Rightarrow> x | Inl e \<Rightarrow> Null) (map str_replace_comma (cells s)))"
    by (rule traverse_map)
       (auto split: sum.splits dest: to_numeric_value_error)
  then show ?thesis
    using assms
    by (simp add: to_numeric_without_commas_def str_accessor_def to_numeric_def comp_def to_numeric_coerce_def)
qed

lemma astype_cells: "astype d s = \<lparr>dtype = d, cells = cells s\<rparr>"
  by (cases s) (simp add: astype_def)

lemma convert_column_converted:
  assumes "dtype s \<noteq> Float64" "dtype s \<noteq> Datetime64"
  shows "convert_column opts t s = Inr (converted opts t s)"
proof -
  define a where "a = (t = ''date'' \<and> parse_dates opts)"
  define b where "b = (t = ''numeric'' \<and> parse_numbers opts)"
  define c where "c = (t = ''categorical'' \<and> parse_categories opts)"
  have lhs: "convert_column opts t s =
      (if a then (if is_taiwanese_date opts then apply_parse_taiwanese_date s
                  else to_datetime_series Coerce s)
       else if b then to_numeric_without_commas Coerce s
       else if c then Inr (astype CategoryD s)
       else Inr (astype StringD s))"
    by (simp add: convert_column_def a_def b_def c_def)
  have cc: "convert_cell opts t =
      (if a then (if is_taiwanese_date opts then (\<lambda>x. cell_of_parsed (parse_value x)) else to_datetime_coerce)
       else if b then to_numeric_coerce else (\<lambda>x. x))"
    by (auto simp: convert_cell_def a_def b_def fun_eq_iff)
  have cd: "converted_dtype opts t s =
      (if a then
        (if is_taiwanese_date opts then
           (if cells s = [] then dtype s
            else if list_all (\<lambda>c. parse_value c = NoneV) (cells s) then ObjectD else Datetime64)
         else Datetime64)
      else if b then Float64 else if c then CategoryD else StringD)"
    by (simp add: converted_dtype_def a_def b_def c_def)
  show ?thesis
    unfolding lhs converted_def cc cd
    using assms
    by (cases a; cases b; cases c; cases "is_taiwanese_date opts")
       (simp_all add: apply_parse_Inr to_datetime_series_coerce to_numeric_coerce_series
          astype_cells list_all_iff)
qed

lemma column_type_effective:
  assumes "dtype s \<noteq> Float64" "dtype s \<noteq> Datetime64"
  shows "column_type force c s = Inr (effective_type force c s)"
  using assms by (simp add: column_type_def infer_first_matching effective_type_def split: option.splits)

lemma parse_column_converted:
  assumes "dtype s \<noteq> Float64" "dtype s \<noteq> Datetime64"
  shows "parse_column opts force (c, s) =
           Inr (c, converted opts (effective_type force c (replace_sentinel s)) (replace_sentinel s))"
proof -
  have d: "dtype (replace_sentinel s) \<noteq> Float64" "dtype (replace_sentinel s) \<noteq> Datetime64"
    using assms by (simp_all add: replace_sentinel_simps)
  show ?thesis
    by (simp add: parse_column_def Let_def column_type_effective[OF d] convert_column_converted[OF d])
qed

lemma parse_column_numeric_dtype_raises:
  assumes "dtype s = Float64 \<or> dtype s = Datetime64"
  shows "parse_column opts force (c, s) = Inl AttributeError"
proof -
  have "dtype (replace_sentinel s) = Float64 \<or> dtype (replace_sentinel s) = Datetime64"
    using assms by (simp add: replace_sentinel_simps)
  then have "infer_column_type (replace_sentinel s) True = Inl AttributeError"
    by (rule infer_numeric_dtype_raises)
  then show ?thesis by (simp add: parse_column_def Let_def column_type_def)
qed

section \<open>The frame of the records\<close>

lemma add_key_set: "set (foldl add_key acc ks) = set acc \<union> set ks"
  by (induction ks arbitrary: acc) (auto simp: add_key_def)

lemma add_key_distinct: "distinct acc \<Longrightarrow> distinct (foldl add_key acc ks)"
  by (induction ks arbitrary: acc) (auto simp: add_key_def)

lemma column_names_distinct: "distinct (column_names data)"
  by (simp add: column_names_def add_key_distinct)

lemma DataFrame_names: "map fst (DataFrame data) = column_names data"
  by (simp add: DataFrame_def comp_def)

lemma raw_cell_raw: "is_raw_cell (raw_cell r c)"
  by (auto simp: raw_cell_def is_raw_cell_def split: option.splits)

lemma raw_column_simps:
  "dtype (raw_column data c) = ObjectD"
  "cells (raw_column data c) = map (\<lambda>r. raw_cell r c) data"
  by (simp_all add: raw_column_def)

lemma raw_column_raw: "raw_series (raw_column data c)"
  by (simp add: raw_series_def raw_column_simps list_all_iff raw_cell_raw)

lemma parse_data_normalized:
  assumes "\<not> return_raw self"
  shows "parse_data self data opts force =
           Inr (map (\<lambda>c. (c, normalized_column opts force data c)) (column_names data))"
proof -
  have "traverse (parse_column opts force) (DataFrame data)
          = Inr (map (\<lambda>p. (fst p, converted opts (effective_type force (fst p) (replace_sentinel (snd p)))
                                      (replace_sentinel (snd p)))) (DataFrame data))"
  proof (rule traverse_map)
    fix p assume "p \<in> set (DataFrame data)"
    then obtain c where p: "p = (c, raw_column data c)" by (auto simp: DataFrame_def)
    show "parse_column opts force p
            = Inr (fst p, converted opts (effective_type force (fst p) (replace_sentinel (snd p))) (replace_sentinel (snd p)))"
      unfolding p by (simp add: parse_column_converted raw_column_simps)
  qed
  then show ?thesis
    using assms
    by (simp add: parse_data_def parse_frame_def DataFrame_def comp_def normalized_column_def)
qed

lemma parse_data_raw:
  "return_raw self \<Longrightarrow> parse_data self data opts force = Inr (DataFrame data)"
  by (simp add: parse_data_def parse_frame_def)

lemma map_of_columns:
  "c \<in> set cs \<Longrightarrow> map_of (map (\<lambda>c. (c, f c)) cs) c = Some (f c)"
  by (induction cs) auto

section \<open>The claims on \<^verbatim>\<open>parse_data\<close>\<close>

text \<open>
  C10.  When the object was built with \<^verbatim>\<open>return_raw\<close> set, \<^verbatim>\<open>parse_data\<close> returns the records
  as an untyped table, verbatim, for every input and whatever the options and the override
  mapping say: the sentinel stays as it is, no type is inferred or forced, no value is
  converted.
\<close>

theorem return_raw_is_verbatim:
  assumes "return_raw self"
  shows "parse_data self data opts force =
           Inr (map (\<lambda>c. (c, \<lparr>dtype = ObjectD, cells = map (\<lambda>r. raw_cell r c) data\<rparr>)) (column_names data))"
  using assms by (simp add: parse_data_raw DataFrame_def raw_column_def)

lemma return_raw_example:
  "column_names [[(''n'', Some ''1,234''), (''d'', Some ''1131227'')], [(''n'', Some ''--''), (''d'', None)]]
     = [''n'', ''d'']"
  "map (\<lambda>r. raw_cell r ''n'') [[(''n'', Some ''1,234''), (''d'', Some ''1131227'')], [(''n'', Some ''--''), (''d'', None)]]
     = [Text ''1,234'', Text ''--'']"
  "map (\<lambda>r. raw_cell r ''d'') [[(''n'', Some ''1,234''), (''d'', Some ''1131227'')], [(''n'', Some ''--''), (''d'', None)]]
     = [Text ''1131227'', Null]"
  by code_simp+

theorem return_raw_is_verbatim_witness:
  "return_raw example_raw_api \<and>
   parse_data example_raw_api
     [[(''n'', Some ''1,234''), (''d'', Some ''1131227'')], [(''n'', Some ''--''), (''d'', None)]]
     default_options [''n'' \<mapsto> ''categorical'']
   = Inr [(''n'', \<lparr>dtype = ObjectD, cells = [Text ''1,234'', Text ''--'']\<rparr>),
          (''d'', \<lparr>dtype = ObjectD, cells = [Text ''1131227'', Null]\<rparr>)]"
proof -
  have h: "return_raw example_raw_api" by (simp add: example_raw_api_def)
  show ?thesis
    using return_raw_is_verbatim[OF h, of "[[(''n'', Some ''1,234''), (''d'', Some ''1131227'')], [(''n'', Some ''--''), (''d'', None)]]" default_options "[''n'' \<mapsto> ''categorical'']"]
      h return_raw_example
    by simp
qed




text \<open>
  C4.  For every dataset the table that \<^verbatim>\<open>parse_data\<close> returns has exactly the columns of the
  input, each once and each as long as the list of records, and the value of a column at row
  \<open>i\<close> is the conversion, by the effective type of the column, of what record \<open>i\<close> holds for it.
\<close>

theorem rows_stay_aligned:
  "\<exists>df. parse_data self data opts force = Inr df \<and>
     map fst df = column_names data \<and> distinct (column_names data) \<and>
     (\<forall>c \<in> set (column_names data).
        \<exists>s' t. map_of df c = Some s' \<and>
          column_type force c (replace_sentinel (raw_column data c)) = Inr t \<and>
          length (cells s') = length data \<and>
          (\<forall>i < length data.
             cells s' ! i = (if return_raw self then raw_cell (data ! i) c
                             else convert_value opts t (raw_cell (data ! i) c))))"
proof (cases "return_raw self")
  case True
  let ?df = "DataFrame data"
  have 1: "parse_data self data opts force = Inr ?df" using True by (rule parse_data_raw)
  have 2: "\<exists>s' t. map_of ?df c = Some s' \<and>
          column_type force c (replace_sentinel (raw_column data c)) = Inr t \<and>
          length (cells s') = length data \<and>
          (\<forall>i < length data.
             cells s' ! i = (if return_raw self then raw_cell (data ! i) c
                             else convert_value opts t (raw_cell (data ! i) c)))"
    if c: "c \<in> set (column_names data)" for c
  proof -
    have "map_of ?df c = Some (raw_column data c)"
      unfolding DataFrame_def using c by (rule map_of_columns)
    moreover have "column_type force c (replace_sentinel (raw_column data c))
                     = Inr (effective_type force c (replace_sentinel (raw_column data c)))"
      by (rule column_type_effective) (simp_all add: replace_sentinel_simps raw_column_simps)
    ultimately show ?thesis using True by (simp add: raw_column_simps)
  qed
  show ?thesis using 1 2 by (simp add: DataFrame_names column_names_distinct)
next
  case False
  let ?df = "map (\<lambda>c. (c, normalized_column opts force data c)) (column_names data)"
  have 1: "parse_data self data opts force = Inr ?df" using False by (rule parse_data_normalized)
  have 2: "\<exists>s' t. map_of ?df c = Some s' \<and>
          column_type force c (replace_sentinel (raw_column data c)) = Inr t \<and>
          length (cells s') = length data \<and>
          (\<forall>i < length data.
             cells s' ! i = (if return_raw self then raw_cell (data ! i) c
                             else convert_value opts t (raw_cell (data ! i) c)))"
    if c: "c \<in> set (column_names data)" for c
  proof -
    have "map_of ?df c = Some (normalized_column opts force data c)"
      using c by (rule map_of_columns)
    moreover have "column_type force c (replace_sentinel (raw_column data c))
                     = Inr (effective_type force c (replace_sentinel (raw_column data c)))"
      by (rule column_type_effective) (simp_all add: replace_sentinel_simps raw_column_simps)
    ultimately show ?thesis
      using False
      by (simp add: normalized_column_def converted_def replace_sentinel_simps raw_column_simps
          convert_value_def)
  qed
  show ?thesis using 1 2 by (simp add: comp_def column_names_distinct)
qed

lemma rows_example:
  "column_names example_data = [''a'', ''b'']"
  "length example_data = 3"
  "column_type Map.empty ''a'' (replace_sentinel (raw_column example_data ''a'')) = Inr ''numeric''"
  "column_type Map.empty ''b'' (replace_sentinel (raw_column example_data ''b'')) = Inr ''categorical''"
  "map (\<lambda>i. convert_value default_options ''numeric'' (raw_cell (example_data ! i) ''a'')) [0, 1, 2]
     = [Number 100, Null, Number (2401 / 2)]"
  "map (\<lambda>i. convert_value default_options ''categorical'' (raw_cell (example_data ! i) ''b'')) [0, 1, 2]
     = [Text ''x'', Null, Text ''y'']"
  by code_simp+

theorem rows_stay_aligned_witness:
  "\<exists>df sa sb. parse_data example_api example_data default_options Map.empty = Inr df \<and>
     map fst df = [''a'', ''b''] \<and>
     map_of df ''a'' = Some sa \<and> length (cells sa) = 3 \<and>
     cells sa ! 0 = Number 100 \<and> cells sa ! 1 = Null \<and> cells sa ! 2 = Number (2401 / 2) \<and>
     map_of df ''b'' = Some sb \<and> length (cells sb) = 3 \<and>
     cells sb ! 0 = Text ''x'' \<and> cells sb ! 1 = Null \<and> cells sb ! 2 = Text ''y''"
proof -
  have nr: "\<not> return_raw example_api" by (simp add: example_api_def)
  from rows_stay_aligned[of example_api example_data default_options Map.empty]
  obtain df where df: "parse_data example_api example_data default_options Map.empty = Inr df"
    and names: "map fst df = column_names example_data"
    and cols: "\<forall>c \<in> set (column_names example_data).
        \<exists>s' t. map_of df c = Some s' \<and>
          column_type Map.empty c (replace_sentinel (raw_column example_data c)) = Inr t \<and>
          length (cells s') = length example_data \<and>
          (\<forall>i < length example_data.
             cells s' ! i = (if return_raw example_api then raw_cell (example_data ! i) c
                             else convert_value default_options t (raw_cell (example_data ! i) c)))"
    by blast
  from cols obtain sa where sa: "map_of df ''a'' = Some sa" "length (cells sa) = 3"
    "\<forall>i < 3. cells sa ! i = convert_value default_options ''numeric'' (raw_cell (example_data ! i) ''a'')"
    using nr by (fastforce simp: rows_example)
  from cols obtain sb where sb: "map_of df ''b'' = Some sb" "length (cells sb) = 3"
    "\<forall>i < 3. cells sb ! i = convert_value default_options ''categorical'' (raw_cell (example_data ! i) ''b'')"
    using nr by (fastforce simp: rows_example)
  have "cells sa ! 0 = Number 100 \<and> cells sa ! 1 = Null \<and> cells sa ! 2 = Number (2401 / 2)"
    using sa(3) rows_example(5) by simp
  moreover have "cells sb ! 0 = Text ''x'' \<and> cells sb ! 1 = Null \<and> cells sb ! 2 = Text ''y''"
    using sb(3) rows_example(6) by simp
  ultimately show ?thesis
    using df names sa(1,2) sb(1,2) by (simp add: rows_example)
qed

section \<open>The claim on \<^verbatim>\<open>get_industry_eps_stat_info\<close>\<close>

text \<open>
  C8.  The method makes one request.  When the status of the answer is 200 it returns the
  table that \<^verbatim>\<open>parse_data\<close> makes of the body and prints nothing; for every other status it
  returns \<^verbatim>\<open>None\<close> and prints one diagnostic line, and it does not ask again.
\<close>

theorem fetch_returns_table_iff_200:
  assumes "pending w = r # rs"
  shows "(status_code r = 200 \<longrightarrow>
           (\<exists>df. parse_data self (json r) default_options eps_force_column_type = Inr df \<and>
                 get_industry_eps_stat_info self w =
                   Inr (Some df, w\<lparr>pending := rs, requested := requested w @ [base_url self @ endpoint]\<rparr>))) \<and>
         (status_code r \<noteq> 200 \<longrightarrow>
            get_industry_eps_stat_info self w =
              Inr (None, w\<lparr>pending := rs, requested := requested w @ [base_url self @ endpoint],
                           stdout := stdout w @ [''Error '' @ str_of_int (status_code r)
                              @ '' fetching data from '' @ base_url self @ endpoint @ ''.'']\<rparr>))"
proof -
  have "\<exists>df. parse_data self (json r) default_options eps_force_column_type = Inr df"
    by (cases "return_raw self") (simp_all add: parse_data_raw parse_data_normalized)
  then show ?thesis
    using assms
    by (auto simp: get_industry_eps_stat_info_def requests_get_def print_line_def Let_def)
qed

lemma fetch_example:
  "parse_data example_api [[(col_year, Some ''113''), (''eps'', Some ''10.5'')]] default_options
     eps_force_column_type
   = Inr [(col_year, \<lparr>dtype = CategoryD, cells = [Text ''113'']\<rparr>),
          (''eps'', \<lparr>dtype = Float64, cells = [Number (21 / 2)]\<rparr>)]"
  "''Error '' @ str_of_int 503 @ '' fetching data from '' @ base_url example_api @ endpoint @ ''.''
     = ''Error 503 fetching data from https://openapi.twse.com.tw/v1/opendata/t187ap14_L.''"
  "base_url example_api @ endpoint = ''https://openapi.twse.com.tw/v1/opendata/t187ap14_L''"
  by code_simp+

theorem fetch_returns_table_iff_200_witness:
  "pending (example_world 200) =
     [\<lparr>status_code = 200, json = [[(col_year, Some ''113''), (''eps'', Some ''10.5'')]]\<rparr>,
      \<lparr>status_code = 200, json = []\<rparr>] \<and>
   get_industry_eps_stat_info example_api (example_world 200) =
     Inr (Some [(col_year, \<lparr>dtype = CategoryD, cells = [Text ''113'']\<rparr>),
                (''eps'', \<lparr>dtype = Float64, cells = [Number (21 / 2)]\<rparr>)],
          \<lparr>pending = [\<lparr>status_code = 200, json = []\<rparr>],
             requested = [''https://openapi.twse.com.tw/v1/opendata/t187ap14_L''], stdout = []\<rparr>) \<and>
   get_industry_eps_stat_info example_api (example_world 503) =
     Inr (None,
          \<lparr>pending = [\<lparr>status_code = 200, json = []\<rparr>],
             requested = [''https://openapi.twse.com.tw/v1/opendata/t187ap14_L''],
             stdout = [''Error 503 fetching data from https://openapi.twse.com.tw/v1/opendata/t187ap14_L.'']\<rparr>)"
proof -
  let ?r = "\<lambda>code. \<lparr>status_code = code, json = [[(col_year, Some ''113''), (''eps'', Some ''10.5'')]]\<rparr>"
  have p: "pending (example_world code) = ?r code # [\<lparr>status_code = 200, json = []\<rparr>]" for code
    by (simp add: example_world_def)
  show ?thesis
    using fetch_returns_table_iff_200[OF p[of 200], of example_api]
      fetch_returns_table_iff_200[OF p[of 503], of example_api] fetch_example
    by (simp add: example_world_def)
qed

section \<open>Numeric texts\<close>










lemma sentinel_not_numeric: "\<not> numeric_string ''--''"
  by (simp add: numeric_string_def digit_or_comma_def is_digit_cases)






section \<open>The claim on numeric columns\<close>





text \<open>
  The two other conditions of the amended claim are needed as well: an integer text beyond
  the 64-bit range makes \<^verbatim>\<open>pd.to_numeric\<close> raise, and a column with nothing but the sentinel
  passes the date test.
\<close>

lemma big_integer_column_is_categorical:
  "numeric_string ''18446744073709551616'' \<and>
   infer_column_type \<lparr>dtype = ObjectD, cells = [Text ''18446744073709551616'']\<rparr> True = Inr ''categorical'' \<and>
   infer_column_type \<lparr>dtype = ObjectD, cells = [Text ''18446744073709551615'']\<rparr> True = Inr ''numeric''"
  by code_simp

lemma sentinel_only_column_is_date:
  "infer_column_type \<lparr>dtype = ObjectD, cells = [Text ''--'', Text ''--'']\<rparr> True = Inr ''date''"
  by code_simp

section \<open>\<^verbatim>\<open>parse_data\<close> on its own output\<close>

lemma series_eqI: "dtype a = dtype b \<Longrightarrow> cells a = cells b \<Longrightarrow> a = (b :: series)"
  by (cases a; cases b) simp

lemma replace_sentinel_all_null:
  "list_all (\<lambda>c. c = Null) (cells s) \<Longrightarrow> replace_sentinel s = s"
proof (rule series_eqI)
  assume n: "list_all (\<lambda>c. c = Null) (cells s)"
  show "dtype (replace_sentinel s) = dtype s" by (simp add: replace_sentinel_simps)
  have "map (\<lambda>c. if c = Text ''--'' then Null else c) (cells s) = cells s"
  proof (rule map_idI)
    fix c assume "c \<in> set (cells s)"
    then have "c = Null" using n by (simp add: list_all_iff)
    then show "(if c = Text ''--'' then Null else c) = c" by simp
  qed
  then show "cells (replace_sentinel s) = cells s" by (simp only: replace_sentinel_simps)
qed

lemma first_matching_all_null:
  "list_all (\<lambda>c. c = Null) cs \<Longrightarrow> first_matching_type True cs = ''date''"
  by (auto simp: first_matching_type_def date_applies_def list_all_iff str_match_def)

lemma parse_value_Null: "parse_value Null = NoneV"
  by (simp add: parse_value_not_text)

lemma cell_of_parsed_NoneV: "cell_of_parsed NoneV = Null"
  by (simp add: cell_of_parsed_def)

lemma converted_again:
  assumes R: "replace_sentinel R = R"
    and t: "t = effective_type force c R"
    and d: "dtype (converted opts t R) \<noteq> Float64" "dtype (converted opts t R) \<noteq> Datetime64"
  shows "replace_sentinel (converted opts t R) = converted opts t R
         \<and> effective_type force c (converted opts t R) = t
         \<and> converted opts t (converted opts t R) = converted opts t R"
proof -
  let ?N = "converted opts t R"
  define a where "a = (t = ''date'' \<and> parse_dates opts)"
  define b where "b = (t = ''numeric'' \<and> parse_numbers opts)"
  have cc: "convert_cell opts t =
      (if a then (if is_taiwanese_date opts then (\<lambda>x. cell_of_parsed (parse_value x)) else to_datetime_coerce)
       else if b then to_numeric_coerce else (\<lambda>x. x))"
    by (auto simp: convert_cell_def a_def b_def fun_eq_iff)
  have cd: "converted_dtype opts t s =
      (if a then
        (if is_taiwanese_date opts then
           (if cells s = [] then dtype s
            else if list_all (\<lambda>c. parse_value c = NoneV) (cells s) then ObjectD else Datetime64)
         else Datetime64)
      else if b then Float64
      else if t = ''categorical'' \<and> parse_categories opts then CategoryD else StringD)" for s
    by (simp add: converted_dtype_def a_def b_def)
  have nb: "\<not> b" if "\<not> a"
    using d(1) that by (auto simp: converted_def cd)
  show ?thesis
  proof (cases a)
    case True
    have tw: "is_taiwanese_date opts"
      using d(2) True by (cases "is_taiwanese_date opts") (simp_all add: converted_def cd)
    have none: "list_all (\<lambda>c. parse_value c = NoneV) (cells R)"
      using d(2) True tw by (cases "cells R = []") (auto simp: converted_def cd split: if_splits)
    have cellsN: "cells ?N = map (\<lambda>x. cell_of_parsed (parse_value x)) (cells R)"
      using True tw by (simp add: converted_def cc)
    have nulls: "list_all (\<lambda>c. c = Null) (cells ?N)"
      using none by (simp add: cellsN list_all_iff cell_of_parsed_NoneV)
    have dN: "cells ?N \<noteq> [] \<Longrightarrow> dtype ?N = ObjectD"
      using True tw none by (simp add: converted_def cd)
    have 1: "replace_sentinel ?N = ?N"
      using nulls by (rule replace_sentinel_all_null)
    have td: "t = ''date''" using True by (simp add: a_def)
    have 2: "effective_type force c ?N = t"
    proof (cases "force c")
      case None
      have "first_matching_type True (cells (replace_sentinel ?N)) = ''date''"
        using nulls unfolding 1 by (rule first_matching_all_null)
      then have "effective_type force c ?N = ''date''"
        using None by (simp only: effective_type_def option.case)
      then show ?thesis using td by (simp only:)
    next
      case (Some f)
      then show ?thesis using t by (simp add: effective_type_def)
    qed
    have 3: "converted opts t ?N = ?N"
    proof (rule series_eqI)
      have pn: "list_all (\<lambda>c. parse_value c = NoneV) (cells ?N)"
        using nulls by (auto simp: list_all_iff parse_value_Null)
      show "dtype (converted opts t ?N) = dtype ?N"
        using True tw pn dN by (simp add: converted_def[of opts t ?N] cd)
      have "map (\<lambda>x. cell_of_parsed (parse_value x)) (cells ?N) = cells ?N"
        using nulls by (auto simp: list_all_iff parse_value_Null cell_of_parsed_NoneV intro!: map_idI)
      then show "cells (converted opts t ?N) = cells ?N"
        using True tw by (simp add: converted_def[of opts t ?N] cc)
    qed
    show ?thesis using 1 2 3 by simp
  next
    case False
    note nb = nb[OF False]
    have cellsN: "cells ?N = cells R"
      using False nb by (simp add: converted_def cc)
    have 1: "replace_sentinel ?N = ?N"
    proof (rule series_eqI)
      show "dtype (replace_sentinel ?N) = dtype ?N" by (simp add: replace_sentinel_simps)
      have "cells (replace_sentinel R) = cells R" using R by simp
      then show "cells (replace_sentinel ?N) = cells ?N"
        by (simp add: replace_sentinel_simps cellsN)
    qed
    have 2: "effective_type force c ?N = t"
    proof (cases "force c")
      case None
      have "cells (replace_sentinel ?N) = cells (replace_sentinel R)"
        unfolding 1 R by (rule cellsN)
      then have "effective_type force c ?N = effective_type force c R"
        using None by (simp only: effective_type_def option.case)
      then show ?thesis using t by (simp only:)
    next
      case (Some f)
      then have "effective_type force c ?N = f" "effective_type force c R = f"
        by (simp_all only: effective_type_def option.case)
      then show ?thesis using t by (simp only:)
    qed
    have 3: "converted opts t ?N = ?N"
    proof (rule series_eqI)
      show "dtype (converted opts t ?N) = dtype ?N"
        using False nb by (simp add: converted_def cd)
      show "cells (converted opts t ?N) = cells ?N"
        using False nb by (simp add: converted_def cc)
    qed
    show ?thesis using 1 2 3 by simp
  qed
qed

lemma parse_column_again:
  assumes "text_like_column (c, normalized_column opts force data c)"
  shows "parse_column opts force (c, normalized_column opts force data c)
           = Inr (c, normalized_column opts force data c)"
proof -
  let ?R = "replace_sentinel (raw_column data c)"
  let ?t = "effective_type force c ?R"
  have N: "normalized_column opts force data c = converted opts ?t ?R"
    by (simp add: normalized_column_def)
  have d: "dtype (converted opts ?t ?R) \<noteq> Float64" "dtype (converted opts ?t ?R) \<noteq> Datetime64"
    using assms by (simp_all add: text_like_column_def N)
  have R: "replace_sentinel ?R = ?R" by (rule replace_sentinel_idem)
  note again = converted_again[OF R refl d]
  show ?thesis
    unfolding N
    by (simp add: parse_column_converted[OF d] again)
qed

lemma traverse_first_error:
  assumes "\<And>x. x \<in> set xs \<Longrightarrow> f x = Inl e \<or> (\<exists>y. f x = Inr y)" "\<exists>x \<in> set xs. f x = Inl e"
  shows "traverse f xs = Inl e"
  using assms
proof (induction xs)
  case Nil
  then show ?case by simp
next
  case (Cons x xs)
  show ?case
  proof (cases "f x")
    case (Inl e')
    then have "e' = e" using Cons.prems(1)[of x] by auto
    with Inl show ?thesis by simp
  next
    case (Inr y)
    then have "\<exists>x \<in> set xs. f x = Inl e" using Cons.prems(2) by auto
    then have "traverse f xs = Inl e" using Cons.IH Cons.prems(1) by simp
    with Inr show ?thesis by simp
  qed
qed

lemma parse_frame_raises:
  assumes "\<not> return_raw self" "\<not> list_all text_like_column df"
  shows "parse_frame self opts force df = Inl AttributeError"
proof -
  have "traverse (parse_column opts force) df = Inl AttributeError"
  proof (rule traverse_first_error)
    fix p assume "p \<in> set df"
    show "parse_column opts force p = Inl AttributeError \<or> (\<exists>y. parse_column opts force p = Inr y)"
    proof (cases "text_like_column p")
      case True
      then show ?thesis
        using parse_column_converted[of "snd p" opts force "fst p"] by (simp add: text_like_column_def)
    next
      case False
      then show ?thesis
        using parse_column_numeric_dtype_raises[of "snd p" opts force "fst p"]
        by (simp add: text_like_column_def)
    qed
  next
    from assms(2) obtain p where "p \<in> set df" "\<not> text_like_column p"
      by (auto simp: list_all_iff)
    then show "\<exists>p \<in> set df. parse_column opts force p = Inl AttributeError"
      using parse_column_numeric_dtype_raises[of "snd p" opts force "fst p"]
      by (auto simp: text_like_column_def intro!: bexI[of _ p])
  qed
  then show ?thesis using assms(1) by (simp add: parse_frame_def)
qed

text \<open>
  C7, as amended.  Let \<^verbatim>\<open>parse_data\<close> return a table for a dataset.  Applied again to that
  table, with the same options and override mapping, it returns the same table when
  \<^verbatim>\<open>return_raw\<close> is set or no column of the table is numeric or datetime; when
  \<^verbatim>\<open>return_raw\<close> is not set and some column is numeric or datetime, the second application
  raises \<^verbatim>\<open>AttributeError\<close> (from \<^verbatim>\<open>series.str\<close> on line 80) instead of returning.
\<close>

theorem normalize_twice:
  assumes "parse_data self data opts force = Inr df"
  shows "(return_raw self \<or> list_all text_like_column df \<longrightarrow>
            parse_frame self opts force df = Inr df) \<and>
         (\<not> return_raw self \<and> \<not> list_all text_like_column df \<longrightarrow>
            parse_frame self opts force df = Inl AttributeError)"
proof (intro conjI impI)
  assume "\<not> return_raw self \<and> \<not> list_all text_like_column df"
  then show "parse_frame self opts force df = Inl AttributeError"
    by (simp add: parse_frame_raises)
next
  assume h: "return_raw self \<or> list_all text_like_column df"
  show "parse_frame self opts force df = Inr df"
  proof (cases "return_raw self")
    case True
    then show ?thesis by (simp add: parse_frame_def)
  next
    case False
    then have tl: "list_all text_like_column df" using h by simp
    have df: "df = map (\<lambda>c. (c, normalized_column opts force data c)) (column_names data)"
      using assms parse_data_normalized[OF False, of data opts force] by simp
    have "traverse (parse_column opts force) df = Inr (map (\<lambda>p. p) df)"
    proof (rule traverse_map)
      fix p assume p: "p \<in> set df"
      then obtain c where c: "p = (c, normalized_column opts force data c)"
        by (auto simp: df)
      have "text_like_column p" using tl p by (simp add: list_all_iff)
      then show "parse_column opts force p = Inr p"
        unfolding c by (rule parse_column_again)
    qed
    then show ?thesis using False by (simp add: parse_frame_def)
  qed
qed

lemma twice_examples:
  "parse_data example_api [[(col_year, Some ''113''), (''name'', Some ''--'')]] default_options
     eps_force_column_type
   = Inr [(col_year, \<lparr>dtype = CategoryD, cells = [Text ''113'']\<rparr>),
          (''name'', \<lparr>dtype = ObjectD, cells = [Null]\<rparr>)]"
  "list_all text_like_column [(col_year, \<lparr>dtype = CategoryD, cells = [Text ''113'']\<rparr>),
          (''name'', \<lparr>dtype = ObjectD, cells = [Null]\<rparr>)]"
  "\<not> list_all text_like_column [(col_year, \<lparr>dtype = CategoryD, cells = [Text ''113'']\<rparr>),
          (''eps'', \<lparr>dtype = Float64, cells = [Number (21 / 2)]\<rparr>)]"
  "\<not> return_raw example_api"
  by code_simp+

theorem normalize_twice_witness:
  "parse_data example_api [[(col_year, Some ''113''), (''name'', Some ''--'')]] default_options
     eps_force_column_type
   = Inr [(col_year, \<lparr>dtype = CategoryD, cells = [Text ''113'']\<rparr>),
          (''name'', \<lparr>dtype = ObjectD, cells = [Null]\<rparr>)] \<and>
   list_all text_like_column [(col_year, \<lparr>dtype = CategoryD, cells = [Text ''113'']\<rparr>),
          (''name'', \<lparr>dtype = ObjectD, cells = [Null]\<rparr>)] \<and>
   parse_frame example_api default_options eps_force_column_type
     [(col_year, \<lparr>dtype = CategoryD, cells = [Text ''113'']\<rparr>), (''name'', \<lparr>dtype = ObjectD, cells = [Null]\<rparr>)]
   = Inr [(col_year, \<lparr>dtype = CategoryD, cells = [Text ''113'']\<rparr>),
          (''name'', \<lparr>dtype = ObjectD, cells = [Null]\<rparr>)] \<and>
   parse_data example_api [[(col_year, Some ''113''), (''eps'', Some ''10.5'')]] default_options
     eps_force_column_type
   = Inr [(col_year, \<lparr>dtype = CategoryD, cells = [Text ''113'']\<rparr>),
          (''eps'', \<lparr>dtype = Float64, cells = [Number (21 / 2)]\<rparr>)] \<and>
   \<not> return_raw example_api \<and>
   \<not> list_all text_like_column [(col_year, \<lparr>dtype = CategoryD, cells = [Text ''113'']\<rparr>),
          (''eps'', \<lparr>dtype = Float64, cells = [Number (21 / 2)]\<rparr>)] \<and>
   parse_frame example_api default_options eps_force_column_type
     [(col_year, \<lparr>dtype = CategoryD, cells = [Text ''113'']\<rparr>),
      (''eps'', \<lparr>dtype = Float64, cells = [Number (21 / 2)]\<rparr>)]
   = Inl AttributeError"
  using normalize_twice[OF twice_examples(1)] normalize_twice[OF fetch_example(1)]
    twice_examples fetch_example(1)
  by simp

text \<open>
  C7 as stated fails: the table of the end-to-end example has a numeric column, and the second
  application raises on it.
\<close>

theorem normalize_twice_counterexample:
  "parse_data example_api [[(col_year, Some ''113''), (''eps'', Some ''10.5'')]] default_options
     eps_force_column_type
   = Inr [(col_year, \<lparr>dtype = CategoryD, cells = [Text ''113'']\<rparr>),
          (''eps'', \<lparr>dtype = Float64, cells = [Number (21 / 2)]\<rparr>)] \<and>
   parse_frame example_api default_options eps_force_column_type
     [(col_year, \<lparr>dtype = CategoryD, cells = [Text ''113'']\<rparr>),
      (''eps'', \<lparr>dtype = Float64, cells = [Number (21 / 2)]\<rparr>)]
   = Inl AttributeError"
  by code_simp

end
